theory Spec2Isabelle
  imports Complex_Main
begin

section \<open>JavaScript strings\<close>

text \<open>
  A JavaScript string is a sequence of UTF-16 code units; \<open>length\<close>, \<open>substring\<close>
  and the regular expressions of the service all count code units. A string is therefore
  a list of code units, each a natural number, and an ASCII literal of the source is
  written \<open>lit ''...''\<close>.
\<close>

type_synonym code_unit = nat
type_synonym jsstring = "code_unit list"

definition lit :: "string \<Rightarrow> jsstring" where
  "lit s = map of_char s"

text \<open>
  The class \<open>\s\<close> of a JavaScript regular expression, which is also what
  \<open>String.prototype.trim\<close> strips: tab, line feed, vertical tab, form feed,
  carriage return, space, no-break space, U+1680, U+2000 to U+200A, U+2028, U+2029,
  U+202F, U+205F, U+3000 and U+FEFF.
\<close>

definition is_ws :: "code_unit \<Rightarrow> bool" where
  "is_ws c \<longleftrightarrow>
     c = 9 \<or> c = 10 \<or> c = 11 \<or> c = 12 \<or> c = 13 \<or> c = 32 \<or> c = 160 \<or> c = 5760
     \<or> (8192 \<le> c \<and> c \<le> 8202) \<or> c = 8232 \<or> c = 8233 \<or> c = 8239 \<or> c = 8287
     \<or> c = 12288 \<or> c = 65279"

text \<open>\<open>s.trim()\<close>\<close>

definition trim :: "jsstring \<Rightarrow> jsstring" where
  "trim s = rev (dropWhile is_ws (rev (dropWhile is_ws s)))"

text \<open>
  \<open>s.replace(/\s+/g, ' ')\<close>: scanning from the left, every maximal run of white space
  is replaced by one space (code unit 32).
\<close>

function replace_ws_runs :: "jsstring \<Rightarrow> jsstring" where
  "replace_ws_runs [] = []"
| "replace_ws_runs (c # cs) =
     (if is_ws c then 32 # replace_ws_runs (dropWhile is_ws cs)
      else c # replace_ws_runs cs)"
  by pat_completeness auto
termination
  by (relation "measure length") (auto simp: length_dropWhile_le less_Suc_eq_le)

text \<open>\<open>s.substring(0, n)\<close>\<close>

definition substring0 :: "nat \<Rightarrow> jsstring \<Rightarrow> jsstring" where
  "substring0 n s = take n s"

text \<open>\<open>s.includes(pat)\<close>, case-sensitive as in JavaScript.\<close>

fun str_includes :: "jsstring \<Rightarrow> jsstring \<Rightarrow> bool" where
  "str_includes [] pat = (pat = [])"
| "str_includes (c # cs) pat = (take (length pat) (c # cs) = pat \<or> str_includes cs pat)"

text \<open>The decimal rendering of a non-negative integer, as a template literal prints it.\<close>

fun show_nat :: "nat \<Rightarrow> jsstring" where
  "show_nat n = (if n < 10 then [48 + n] else show_nat (n div 10) @ [48 + n mod 10])"

text \<open>
  \<open>`${v}`\<close> and \<open>v || d\<close> for a field that is either missing (\<open>undefined\<close>) or a
  string: the empty string is falsy.
\<close>

definition interpolate :: "jsstring option \<Rightarrow> jsstring" where
  "interpolate v = (case v of None \<Rightarrow> lit ''undefined'' | Some s \<Rightarrow> s)"

definition or_text :: "jsstring option \<Rightarrow> jsstring \<Rightarrow> jsstring" where
  "or_text v d = (case v of None \<Rightarrow> d | Some s \<Rightarrow> if s = [] then d else s)"

text \<open>\<open>s.replace(/[^0-9]/g, '')\<close>\<close>

definition is_digit :: "code_unit \<Rightarrow> bool" where
  "is_digit c \<longleftrightarrow> 48 \<le> c \<and> c \<le> 57"

definition strip_non_digits :: "jsstring \<Rightarrow> jsstring" where
  "strip_non_digits s = filter is_digit s"

section \<open>JavaScript numbers\<close>

text \<open>
  A JavaScript number is an IEEE 754 double. The cost computation has no negative
  number, so a number is here a finite double of value \<open>q \<ge> 0\<close>, written
  \<open>Finite q\<close>, or \<open>Infinity\<close>, or \<open>NaN\<close>. Every arithmetic operation returns the
  double nearest to the exact result, ties going to the even significand
  (\<open>round_double\<close>): the exponent is \<open>\<lfloor>log\<^sub>2 x\<rfloor>\<close>, not below \<open>-1022\<close>, the unit in
  the last place is \<open>2\<close> to the power of the exponent minus 52, and a rounded value
  of \<open>2^1024\<close> or more is \<open>Infinity\<close>.
\<close>

datatype jsnum = Finite rat | Infinity | NaN

function log2_up :: "rat \<Rightarrow> nat" where
  "log2_up x = (if x < 2 then 0 else Suc (log2_up (x / 2)))"
  by pat_completeness auto
termination
proof (relation "measure (\<lambda>x. nat \<lfloor>x\<rfloor>)")
  show "wf (measure (\<lambda>x::rat. nat \<lfloor>x\<rfloor>))" by simp
next
  fix x :: rat
  assume "\<not> x < 2"
  then have m: "2 \<le> \<lfloor>x\<rfloor>" by linarith
  have "x < of_int \<lfloor>x\<rfloor> + 1" by linarith
  then have "x / 2 < (of_int \<lfloor>x\<rfloor> + 1) / 2" by simp
  also have "\<dots> \<le> of_int \<lfloor>x\<rfloor>" using m by simp
  finally have "\<lfloor>x / 2\<rfloor> < \<lfloor>x\<rfloor>" by (simp add: floor_less_iff)
  then show "(x / 2, x) \<in> measure (\<lambda>x. nat \<lfloor>x\<rfloor>)" using m by simp
qed

function log2_down :: "rat \<Rightarrow> nat" where
  "log2_down x = (if x \<le> 0 \<or> 1 \<le> x then 0 else Suc (log2_down (2 * x)))"
  by pat_completeness auto
termination
proof (relation "measure (\<lambda>x. nat \<lfloor>1 / x\<rfloor>)")
  show "wf (measure (\<lambda>x::rat. nat \<lfloor>1 / x\<rfloor>))" by simp
next
  fix x :: rat
  assume "\<not> (x \<le> 0 \<or> 1 \<le> x)"
  then have x: "0 < x" "x < 1" by auto
  then have "1 \<le> 1 / x" by simp
  then have m: "1 \<le> \<lfloor>1 / x\<rfloor>" by linarith
  have "1 / x < of_int \<lfloor>1 / x\<rfloor> + 1" by linarith
  then have "(1 / x) / 2 < (of_int \<lfloor>1 / x\<rfloor> + 1) / 2" by simp
  also have "\<dots> \<le> of_int \<lfloor>1 / x\<rfloor>" using m by simp
  finally have "\<lfloor>(1 / x) / 2\<rfloor> < \<lfloor>1 / x\<rfloor>" by (simp add: floor_less_iff)
  moreover have "1 / (2 * x) = (1 / x) / 2" by simp
  ultimately have "\<lfloor>1 / (2 * x)\<rfloor> < \<lfloor>1 / x\<rfloor>" by (simp only:)
  then show "(2 * x, x) \<in> measure (\<lambda>x. nat \<lfloor>1 / x\<rfloor>)" using m by simp
qed

declare log2_up.simps [simp del] log2_down.simps [simp del]

definition floor_log2 :: "rat \<Rightarrow> int" where
  "floor_log2 x = (if 1 \<le> x then int (log2_up x) else - int (log2_down x))"

definition round_ties_even :: "rat \<Rightarrow> int" where
  "round_ties_even q =
     (let f = \<lfloor>q\<rfloor>; r = q - of_int f
      in if r < 1 / 2 then f else if 1 / 2 < r then f + 1 else if even f then f else f + 1)"

definition round_double :: "rat \<Rightarrow> jsnum" where
  "round_double x =
     (if x \<le> 0 then Finite 0
      else (let e = max (floor_log2 x) (- 1022);
                ulp = 2 powi (e - 52);
                y = of_int (round_ties_even (x / ulp)) * ulp
            in if 2 ^ 1024 \<le> y then Infinity else Finite y))"

text \<open>
  A decimal literal of the source, such as \<open>0.40\<close>, denotes the nearest double.
\<close>

definition js_literal :: "rat \<Rightarrow> jsnum" where
  "js_literal q = round_double q"

text \<open>\<open>a + b\<close>, \<open>a * b\<close> and \<open>a / b\<close> on non-negative numbers.\<close>

fun js_add :: "jsnum \<Rightarrow> jsnum \<Rightarrow> jsnum" where
  "js_add (Finite a) (Finite b) = round_double (a + b)"
| "js_add (Finite a) Infinity = Infinity"
| "js_add Infinity (Finite b) = Infinity"
| "js_add Infinity Infinity = Infinity"
| "js_add NaN v = NaN"
| "js_add u NaN = NaN"

fun js_mul :: "jsnum \<Rightarrow> jsnum \<Rightarrow> jsnum" where
  "js_mul (Finite a) (Finite b) = round_double (a * b)"
| "js_mul (Finite a) Infinity = (if a = 0 then NaN else Infinity)"
| "js_mul Infinity (Finite b) = (if b = 0 then NaN else Infinity)"
| "js_mul Infinity Infinity = Infinity"
| "js_mul NaN v = NaN"
| "js_mul u NaN = NaN"

fun js_div :: "jsnum \<Rightarrow> jsnum \<Rightarrow> jsnum" where
  "js_div (Finite a) (Finite b) =
     (if b = 0 then (if a = 0 then NaN else Infinity) else round_double (a / b))"
| "js_div (Finite a) Infinity = Finite 0"
| "js_div Infinity (Finite b) = Infinity"
| "js_div Infinity Infinity = NaN"
| "js_div NaN v = NaN"
| "js_div u NaN = NaN"

text \<open>The truthiness of a number: \<open>0\<close> and \<open>NaN\<close> are falsy.\<close>

fun js_truthy :: "jsnum \<Rightarrow> bool" where
  "js_truthy (Finite a) = (a \<noteq> 0)"
| "js_truthy Infinity = True"
| "js_truthy NaN = False"

text \<open>
  \<open>Math.round(x)\<close>: the integer nearest to \<open>x\<close>, a half going up; it is computed
  exactly and is a double.
\<close>

fun Math_round :: "jsnum \<Rightarrow> jsnum" where
  "Math_round (Finite a) = Finite (of_int \<lfloor>a + 1 / 2\<rfloor>)"
| "Math_round Infinity = Infinity"
| "Math_round NaN = NaN"

text \<open>
  \<open>parseInt(s)\<close> on a string that starts with its digits: \<open>NaN\<close> when there is no
  digit, and otherwise the double nearest to the integer the leading digits denote, as
  Node's engine computes it (\<open>Infinity\<close> beyond the range of the doubles).
\<close>

definition parseInt :: "jsstring \<Rightarrow> jsnum" where
  "parseInt s =
     (let ds = takeWhile is_digit s
      in if ds = [] then NaN
         else round_double (of_nat (foldl (\<lambda>a c. 10 * a + (c - 48)) 0 ds)))"

section \<open>The FalAI service (api/services/falaiService.js)\<close>

subsection \<open>calculateCost\<close>

text \<open>
  \<open>const seconds = parseInt(duration.replace(/[^0-9]/g, '')) || 8\<close>: both \<open>NaN\<close> and
  \<open>0\<close> are falsy, so both give 8. \<open>baseRate\<close> is the literal \<open>0.40\<close> or \<open>0.20\<close>;
  the flag has the default \<open>true\<close> when it is \<open>undefined\<close> (\<open>None\<close>). The result is
  the double product \<open>seconds * baseRate\<close>.
\<close>

definition duration_seconds :: "jsstring \<Rightarrow> jsnum" where
  "duration_seconds dur =
     (let n = parseInt (strip_non_digits dur)
      in if js_truthy n then n else Finite 8)"

definition baseRate :: "bool option \<Rightarrow> jsnum" where
  "baseRate generateAudio =
     (if (case generateAudio of None \<Rightarrow> True | Some b \<Rightarrow> b)
      then js_literal (40 / 100) else js_literal (20 / 100))"

definition calculateCost :: "jsstring \<Rightarrow> bool option \<Rightarrow> jsnum" where
  "calculateCost dur generateAudio = js_mul (duration_seconds dur) (baseRate generateAudio)"

text \<open>
  The reading of the specification: the seconds are the integer that the digits of the
  duration string denote, most significant digit first.
\<close>

fun decimal_value :: "nat list \<Rightarrow> nat" where
  "decimal_value [] = 0"
| "decimal_value (d # ds) = d * 10 ^ length ds + decimal_value ds"

definition duration_digits :: "jsstring \<Rightarrow> nat list" where
  "duration_digits dur = map (\<lambda>c. c - 48) (filter is_digit dur)"

definition spec_seconds :: "jsstring \<Rightarrow> nat" where
  "spec_seconds dur = decimal_value (duration_digits dur)"

subsection \<open>Segments and options\<close>

text \<open>
  A segment is the JSON object the client sends. Every sub-object and every field may be
  missing (\<open>None\<close>). Text fields hold strings; \<open>continuity_markers\<close> is read only for
  its truthiness; \<open>synchronized_actions\<close> is a string or an object, whose own entries
  are listed in enumeration order.
\<close>

datatype sync_actions = SyncText jsstring | SyncObject "(jsstring \<times> jsstring) list"

record segment_info_obj =
  segment_number :: "nat option"
  continuity_markers :: bool

record character_description_obj =
  current_state :: "jsstring option"

record action_timeline_obj =
  dialogue :: "jsstring option"
  synchronized_actions :: "sync_actions option"
  micro_expressions :: "jsstring option"

record scene_continuity_obj =
  camera_position :: "jsstring option"
  props_in_frame :: "jsstring option"

record segment =
  segment_info :: "segment_info_obj option"
  character_description :: "character_description_obj option"
  action_timeline :: "action_timeline_obj option"
  scene_continuity :: "scene_continuity_obj option"

text \<open>
  \<open>options.falaiOptions\<close> is spread last into the request, so each of its keys
  replaces the value computed before it. Keys other than the five of the request are
  forwarded to the provider and never read back; they are left out.
\<close>

record falai_options =
  fo_prompt :: "jsstring option"
  fo_aspect_ratio :: "jsstring option"
  fo_duration :: "jsstring option"
  fo_resolution :: "jsstring option"
  fo_generate_audio :: "bool option"

text \<open>
  The generation options; \<open>opt_duration\<close>, \<open>opt_resolution\<close> and \<open>opt_segmentIndex\<close>
  are the source's \<open>duration\<close>, \<open>resolution\<close> and \<open>segmentIndex\<close>.
\<close>

record options =
  aspectRatio :: "jsstring option"
  opt_duration :: "jsstring option"
  opt_resolution :: "jsstring option"
  generateAudio :: "bool option"
  useFast :: "bool option"
  falaiOptions :: "falai_options option"
  opt_segmentIndex :: "nat option"

record request_data =
  prompt :: jsstring
  aspect_ratio :: jsstring
  duration :: jsstring
  resolution :: jsstring
  generate_audio :: bool

text \<open>A thrown JavaScript exception: the two classes that occur, with the message.\<close>

datatype js_error = Error jsstring | TypeError jsstring

fun error_message :: "js_error \<Rightarrow> jsstring" where
  "error_message (Error m) = m"
| "error_message (TypeError m) = m"

text \<open>
  Reading property \<open>p\<close> of \<open>undefined\<close> throws a TypeError; the message is the one
  of Node's engine.
\<close>

definition cannot_read :: "string \<Rightarrow> js_error" where
  "cannot_read p =
     TypeError (lit ''Cannot read properties of undefined (reading '' @ [39] @ lit p @ [39] @ lit '')'')"

subsection \<open>createVideoPrompt\<close>

text \<open>
  \<open>Object.entries(v || {})\<close>: the entries of an object; a non-empty string has one
  entry per code unit, keyed by its index; a missing value and the empty string are
  falsy and give no entry.
\<close>

definition object_entries :: "sync_actions option \<Rightarrow> (jsstring \<times> jsstring) list" where
  "object_entries v =
     (case v of
        None \<Rightarrow> []
      | Some (SyncObject kvs) \<Rightarrow> kvs
      | Some (SyncText s) \<Rightarrow> map (\<lambda>i. (show_nat i, [s ! i])) [0..<length s])"

text \<open>\<open>xs.join(sep)\<close>\<close>

fun join :: "jsstring \<Rightarrow> jsstring list \<Rightarrow> jsstring" where
  "join sep [] = []"
| "join sep [x] = x"
| "join sep (x # y # ys) = x @ sep @ join sep (y # ys)"

text \<open>
  \<open>`${v || d}`\<close> for \<open>synchronized_actions\<close> in the standard template: an object is
  truthy and prints as \<open>[object Object]\<close>.
\<close>

definition sync_or_text :: "sync_actions option \<Rightarrow> jsstring \<Rightarrow> jsstring" where
  "sync_or_text v d =
     (case v of
        None \<Rightarrow> d
      | Some (SyncText s) \<Rightarrow> if s = [] then d else s
      | Some (SyncObject kvs) \<Rightarrow> lit ''[object Object]'')"

definition isEnhanced :: "segment \<Rightarrow> bool" where
  "isEnhanced seg = (case segment_info seg of None \<Rightarrow> False | Some si \<Rightarrow> continuity_markers si)"

text \<open>
  The enhanced template reads its sub-objects without \<open>?.\<close>, left to right; the first
  missing one throws.
\<close>

definition enhanced_template :: "segment \<Rightarrow> js_error + jsstring" where
  "enhanced_template seg =
     (case character_description seg of
        None \<Rightarrow> Inl (cannot_read ''current_state'')
      | Some cd \<Rightarrow>
     (case action_timeline seg of
        None \<Rightarrow> Inl (cannot_read ''dialogue'')
      | Some atl \<Rightarrow>
     (case scene_continuity seg of
        None \<Rightarrow> Inl (cannot_read ''camera_position'')
      | Some sc \<Rightarrow>
          Inr (lit ''UGC style video: '' @ interpolate (current_state cd) @ lit ''. '' @ [10]
               @ lit ''      '' @ [10]
               @ lit ''Dialogue: '' @ [34] @ interpolate (dialogue atl) @ [34] @ [10]
               @ [10]
               @ lit ''Actions: ''
               @ join (lit '', '')
                   (map (\<lambda>(time, action). time @ lit '': '' @ action)
                      (object_entries (synchronized_actions atl))) @ [10]
               @ [10]
               @ lit ''Camera: '' @ interpolate (camera_position sc) @ [10]
               @ lit ''Environment: '' @ interpolate (props_in_frame sc) @ [10]
               @ [10]
               @ lit ''Style: Authentic user-generated content, handheld camera, natural lighting, casual and relatable, ''
               @ or_text (micro_expressions atl) (lit ''natural facial expressions'')))))"

definition standard_template :: "segment \<Rightarrow> jsstring" where
  "standard_template seg =
     lit ''UGC style video: ''
     @ or_text (case character_description seg of None \<Rightarrow> None | Some cd \<Rightarrow> current_state cd)
         (lit ''Natural presenter'') @ lit ''.'' @ [10]
     @ lit ''      '' @ [10]
     @ lit ''Dialogue: '' @ [34]
     @ or_text (case action_timeline seg of None \<Rightarrow> None | Some atl \<Rightarrow> dialogue atl) []
     @ [34] @ [10]
     @ [10]
     @ lit ''Actions: ''
     @ sync_or_text (case action_timeline seg of None \<Rightarrow> None | Some atl \<Rightarrow> synchronized_actions atl)
         (lit ''Natural gestures while speaking'') @ [10]
     @ [10]
     @ lit ''Camera: ''
     @ or_text (case scene_continuity seg of None \<Rightarrow> None | Some sc \<Rightarrow> camera_position sc)
         (lit ''Medium shot, eye level'') @ [10]
     @ [10]
     @ lit ''Style: Authentic user-generated content, handheld camera, natural lighting, casual and relatable''"

text \<open>\<open>prompt.trim().replace(/\s+/g, ' ').substring(0, 1000)\<close>\<close>

definition clean_prompt :: "jsstring \<Rightarrow> jsstring" where
  "clean_prompt p = substring0 1000 (replace_ws_runs (trim p))"

definition createVideoPrompt :: "segment \<Rightarrow> options \<Rightarrow> js_error + jsstring" where
  "createVideoPrompt seg opts =
     (if isEnhanced seg
      then (case enhanced_template seg of
              Inl e \<Rightarrow> Inl e
            | Inr p \<Rightarrow> Inr (clean_prompt p))
      else Inr (clean_prompt (standard_template seg)))"

text \<open>
  What the claim about the prompt asks of the result: every white-space code unit is a
  space, and no white space follows a space.
\<close>

fun ws_collapsed :: "jsstring \<Rightarrow> bool" where
  "ws_collapsed [] = True"
| "ws_collapsed [c] = (is_ws c \<longrightarrow> c = 32)"
| "ws_collapsed (c # d # cs) = ((is_ws c \<longrightarrow> c = 32 \<and> \<not> is_ws d) \<and> ws_collapsed (d # cs))"

subsection \<open>generateVideoFromSegment\<close>

text \<open>
  The service object: \<open>apiKey\<close> is \<open>FAL_AI_API_KEY || FALAI_API_KEY\<close> of the
  environment, and \<open>initialize\<close> sets \<open>initialized\<close> exactly when the key is truthy.
\<close>

record service =
  apiKey :: "jsstring option"
  initialized :: bool

definition truthy :: "jsstring option \<Rightarrow> bool" where
  "truthy v = (case v of None \<Rightarrow> False | Some s \<Rightarrow> s \<noteq> [])"

definition new_FalAIService :: "(string \<Rightarrow> jsstring option) \<Rightarrow> service" where
  "new_FalAIService env =
     (let key = (if truthy (env ''FAL_AI_API_KEY'') then env ''FAL_AI_API_KEY''
                 else env ''FALAI_API_KEY'')
      in \<lparr>apiKey = key, initialized = truthy key\<rparr>)"

text \<open>
  What \<open>await this.axiosInstance.post(endpoint, requestData)\<close> gives: a response
  whose body is \<open>response.data\<close>, or a rejection. Of the body the service reads
  \<open>video?.url\<close>, \<open>status\<close> and \<open>request_id\<close>; of a rejection it reads
  \<open>response.status\<close> with \<open>response.data.error\<close>, \<open>code\<close>, whether \<open>request\<close> is set,
  and \<open>message\<close>. Bodies are JSON objects, never \<open>null\<close>.
\<close>

record response_data =
  video_url :: "jsstring option"
  data_status :: "jsstring option"
  request_id :: "jsstring option"

record axios_error =
  response :: "(nat \<times> jsstring option) option"
  code :: "jsstring option"
  request :: bool
  message :: jsstring

datatype http_result = Resolved response_data | Rejected axios_error

text \<open>
  The observable effects of the service, in program order: a POST to the provider and
  a \<open>setTimeout\<close> pause of so many milliseconds. Logging is left out.
\<close>

datatype event = Post request_data | Sleep nat

text \<open>
  One result of the adapter; \<open>vid_duration\<close> is the source's \<open>duration\<close> and the
  \<open>md_\<close> fields are those of \<open>metadata\<close>.
\<close>

record video_ok =
  segmentNumber :: "nat option"
  videoUrl :: "jsstring option"
  status :: jsstring
  vid_duration :: jsstring
  cost :: jsnum
  requestId :: "jsstring option"
  md_prompt :: jsstring
  md_aspectRatio :: jsstring
  md_resolution :: jsstring
  md_generateAudio :: bool

text \<open>The \<open>catch\<close> block of \<open>generateVideoFromSegment\<close>, for a rejected POST.\<close>

definition translate_error :: "axios_error \<Rightarrow> js_error" where
  "translate_error e =
     (case response e of
        Some (st, data_error) \<Rightarrow>
          (if st = 400 then
             Error (lit ''Invalid request: '' @ or_text data_error (lit ''Bad request parameters''))
           else if st = 401 then Error (lit ''Invalid API key. Please check your FALAI_API_KEY'')
           else if st = 402 then
             Error (lit ''Insufficient credits. Please add funds to your FalAI account'')
           else if st = 429 then Error (lit ''Rate limit exceeded. Please wait and try again'')
           else if st = 500 then Error (lit ''FalAI service error. Please try again later'')
           else Error (lit ''FalAI API error ('' @ show_nat st @ lit ''): ''
                       @ or_text data_error (lit ''Unknown error'')))
      | None \<Rightarrow>
          (if code e = Some (lit ''ECONNABORTED'') then
             Error (lit ''Request timeout. Video generation is taking longer than expected'')
           else if request e then
             Error (lit ''Network error. Please check your internet connection'')
           else Error (lit ''FalAI service error: '' @ message e)))"

text \<open>\<open>{ ..., ...options.falaiOptions }\<close>\<close>

definition spread_falaiOptions :: "falai_options option \<Rightarrow> request_data \<Rightarrow> request_data" where
  "spread_falaiOptions fo r =
     (case fo of
        None \<Rightarrow> r
      | Some f \<Rightarrow>
          \<lparr>prompt = (case fo_prompt f of None \<Rightarrow> prompt r | Some v \<Rightarrow> v),
           aspect_ratio = (case fo_aspect_ratio f of None \<Rightarrow> aspect_ratio r | Some v \<Rightarrow> v),
           duration = (case fo_duration f of None \<Rightarrow> duration r | Some v \<Rightarrow> v),
           resolution = (case fo_resolution f of None \<Rightarrow> resolution r | Some v \<Rightarrow> v),
           generate_audio = (case fo_generate_audio f of None \<Rightarrow> generate_audio r | Some v \<Rightarrow> v)\<rparr>)"

definition requestData_of :: "jsstring \<Rightarrow> options \<Rightarrow> request_data" where
  "requestData_of p opts =
     spread_falaiOptions (falaiOptions opts)
       \<lparr>prompt = p,
        aspect_ratio = or_text (aspectRatio opts) (lit ''16:9''),
        duration = or_text (opt_duration opts) (lit ''8s''),
        resolution = or_text (opt_resolution opts) (lit ''720p''),
        generate_audio = (generateAudio opts \<noteq> Some False)\<rparr>"

text \<open>
  The adapter, given how the provider answers this call's POST. It returns what the
  source returns (\<open>Inr\<close>) or throws (\<open>Inl\<close>), with the events it caused. When
  \<open>createVideoPrompt\<close> throws inside the \<open>try\<close>, the \<open>catch\<close> block calls it again for
  the log entry and the same TypeError leaves the function; no POST was made.
\<close>

definition generateVideoFromSegment ::
  "service \<Rightarrow> (request_data \<Rightarrow> http_result) \<Rightarrow> segment \<Rightarrow> options
     \<Rightarrow> (js_error + video_ok) \<times> event list" where
  "generateVideoFromSegment svc post seg opts =
     (if \<not> initialized svc then
        (Inl (Error (lit ''FalAI service not initialized. Please configure FALAI_API_KEY'')), [])
      else
        (case createVideoPrompt seg opts of
           Inl e \<Rightarrow> (Inl e, [])
         | Inr p \<Rightarrow>
             (let requestData = requestData_of p opts
              in (case post requestData of
                    Resolved d \<Rightarrow>
                      (Inr \<lparr>segmentNumber =
                              (case segment_info seg of None \<Rightarrow> None | Some si \<Rightarrow> segment_number si),
                            videoUrl = video_url d,
                            status = or_text (data_status d) (lit ''completed''),
                            vid_duration = duration requestData,
                            cost = calculateCost (duration requestData)
                                     (Some (generate_audio requestData)),
                            requestId = request_id d,
                            md_prompt = p,
                            md_aspectRatio = aspect_ratio requestData,
                            md_resolution = resolution requestData,
                            md_generateAudio = generate_audio requestData\<rparr>,
                       [Post requestData])
                  | Rejected err \<Rightarrow> (Inl (translate_error err), [Post requestData])))))"

subsection \<open>generateVideosForAllSegments\<close>

datatype video_result = Generated video_ok | Failed nat jsstring

fun entry_success :: "video_result \<Rightarrow> bool" where
  "entry_success (Generated v) = True"
| "entry_success (Failed n m) = False"

record error_entry =
  segmentIndex :: nat
  error :: jsstring

record batch_result =
  success :: bool
  videos :: "video_result list"
  totalSegments :: nat
  successCount :: nat
  failureCount :: nat
  totalCost :: jsnum
  errors :: "error_entry list option"

text \<open>\<open>segments[i].segment_info?.segment_number || i + 1\<close>\<close>

definition failed_segment_number :: "segment \<Rightarrow> nat \<Rightarrow> nat" where
  "failed_segment_number seg i =
     (case segment_info seg of
        None \<Rightarrow> i + 1
      | Some si \<Rightarrow> (case segment_number si of
                     None \<Rightarrow> i + 1
                   | Some n \<Rightarrow> if n = 0 then i + 1 else n))"

text \<open>
  The \<open>for\<close> loop. \<open>provider i\<close> is how the provider answers the POST made while
  segment \<open>i\<close> is processed. The pause is inside the \<open>try\<close>, after a successful call and
  \<open>results.push\<close>; the \<open>catch\<close> block has none.
\<close>

function fanout_loop ::
  "service \<Rightarrow> (nat \<Rightarrow> request_data \<Rightarrow> http_result) \<Rightarrow> segment list \<Rightarrow> options \<Rightarrow> nat
     \<Rightarrow> video_result list \<Rightarrow> error_entry list \<Rightarrow> event list
     \<Rightarrow> video_result list \<times> error_entry list \<times> event list" where
  "fanout_loop svc provider segs opts i results errs trace =
     (if i < length segs then
        (case generateVideoFromSegment svc (provider i) (segs ! i)
                (opts\<lparr>opt_segmentIndex := Some i\<rparr>) of
           (Inr result, evs) \<Rightarrow>
             fanout_loop svc provider segs opts (i + 1) (results @ [Generated result]) errs
               (trace @ evs @ (if i < length segs - 1 then [Sleep 1000] else []))
         | (Inl err, evs) \<Rightarrow>
             fanout_loop svc provider segs opts (i + 1)
               (results @ [Failed (failed_segment_number (segs ! i) i) (error_message err)])
               (errs @ [\<lparr>segmentIndex = i + 1, error = error_message err\<rparr>])
               (trace @ evs))
      else (results, errs, trace))"
  by pat_completeness auto
termination
  by (relation "measure (\<lambda>(svc, provider, segs, opts, i, rest). length segs - i)") auto

text \<open>
  \<open>results.filter(r => r.success && r.cost).reduce((sum, r) => sum + r.cost, 0)\<close>:
  a failed entry has no cost and never passes the filter; the sum is taken from the
  left, in doubles.
\<close>

fun billable :: "video_result \<Rightarrow> bool" where
  "billable (Generated v) = js_truthy (cost v)"
| "billable (Failed n m) = False"

fun add_cost :: "jsnum \<Rightarrow> video_result \<Rightarrow> jsnum" where
  "add_cost acc (Generated v) = js_add acc (cost v)"
| "add_cost acc (Failed n m) = acc"

text \<open>\<open>Math.round(totalCost * 100) / 100\<close>\<close>

definition round_cents :: "jsnum \<Rightarrow> jsnum" where
  "round_cents x = js_div (Math_round (js_mul x (Finite 100))) (Finite 100)"

definition generateVideosForAllSegments ::
  "service \<Rightarrow> (nat \<Rightarrow> request_data \<Rightarrow> http_result) \<Rightarrow> segment list \<Rightarrow> options
     \<Rightarrow> (js_error + batch_result) \<times> event list" where
  "generateVideosForAllSegments svc provider segs opts =
     (if \<not> initialized svc then (Inl (Error (lit ''FalAI service not initialized'')), [])
      else
        (case fanout_loop svc provider segs opts 0 [] [] [] of
           (results, errs, trace) \<Rightarrow>
             (let count = length (filter entry_success results);
                  total = foldl add_cost (Finite 0) (filter billable results)
              in (Inr \<lparr>success = (0 < count),
                       videos = results,
                       totalSegments = length segs,
                       successCount = count,
                       failureCount = length errs,
                       totalCost = round_cents total,
                       errors = (if 0 < length errs then Some errs else None)\<rparr>,
                  trace))))"

section \<open>The route POST /api/generate-videos-falai\<close>

text \<open>
  The request body: \<open>segments\<close> is \<open>None\<close> when the key is missing or not an array;
  \<open>body_options\<close> is the source's \<open>options\<close>, by default the empty object.
\<close>

record request_body =
  segments :: "segment list option"
  body_options :: "options option"

definition empty_options :: options where
  "empty_options =
     \<lparr>aspectRatio = None, opt_duration = None, opt_resolution = None, generateAudio = None,
      useFast = None, falaiOptions = None, opt_segmentIndex = None\<rparr>"

text \<open>
  The options object the route passes on: the defaults first, then \<open>...options\<close>, so a
  key the client sent keeps the client's value.
\<close>

definition keep_or :: "'a option \<Rightarrow> 'a \<Rightarrow> 'a option" where
  "keep_or v d = (case v of None \<Rightarrow> Some d | Some x \<Rightarrow> Some x)"

definition route_options :: "options \<Rightarrow> options" where
  "route_options opts =
     \<lparr>aspectRatio = keep_or (aspectRatio opts) (or_text (aspectRatio opts) (lit ''16:9'')),
      opt_duration = keep_or (opt_duration opts) (or_text (opt_duration opts) (lit ''8s'')),
      opt_resolution = keep_or (opt_resolution opts) (or_text (opt_resolution opts) (lit ''720p'')),
      generateAudio = keep_or (generateAudio opts) (generateAudio opts \<noteq> Some False),
      useFast = keep_or (useFast opts) True,
      falaiOptions = falaiOptions opts,
      opt_segmentIndex = opt_segmentIndex opts\<rparr>"

text \<open>\<open>!segment.action_timeline?.dialogue && !segment.character_description\<close>\<close>

definition invalid_segment :: "segment \<Rightarrow> bool" where
  "invalid_segment seg \<longleftrightarrow>
     \<not> truthy (case action_timeline seg of None \<Rightarrow> None | Some atl \<Rightarrow> dialogue atl)
     \<and> character_description seg = None"

text \<open>The status code chosen in the route's \<open>catch\<close> block.\<close>

definition statusCode_for :: "jsstring \<Rightarrow> nat" where
  "statusCode_for msg =
     (if str_includes msg (lit ''API key'') then 401
      else if str_includes msg (lit ''credits'') then 402
      else if str_includes msg (lit ''rate limit'') then 429
      else if str_includes msg (lit ''Invalid request'') then 400
      else 500)"

text \<open>
  The JSON bodies of the route: the two validation answers and the \<open>catch\<close> answer carry
  \<open>error\<close> and \<open>message\<close>; the normal answer carries the fields of the batch result
  (the constant \<open>currency\<close> and \<open>provider\<close> and the time stamp are left out).
\<close>

datatype route_body =
  ErrorBody jsstring jsstring
| VideosBody batch_result

record http_response =
  http_status :: nat
  body :: route_body

definition post_generate_videos_falai ::
  "service \<Rightarrow> (nat \<Rightarrow> request_data \<Rightarrow> http_result) \<Rightarrow> request_body
     \<Rightarrow> http_response \<times> event list" where
  "post_generate_videos_falai svc provider req =
     (case segments req of
        None \<Rightarrow>
          (\<lparr>http_status = 400,
            body = ErrorBody (lit ''Invalid request'')
                     (lit ''segments array is required and must not be empty'')\<rparr>, [])
      | Some segs \<Rightarrow>
          (if segs = [] then
             (\<lparr>http_status = 400,
               body = ErrorBody (lit ''Invalid request'')
                        (lit ''segments array is required and must not be empty'')\<rparr>, [])
           else if 0 < length (filter invalid_segment segs) then
             (\<lparr>http_status = 400,
               body = ErrorBody (lit ''Invalid segment structure'')
                        (lit ''Each segment must have action_timeline.dialogue or character_description'')\<rparr>,
              [])
           else
             (case generateVideosForAllSegments svc provider segs
                     (route_options (case body_options req of None \<Rightarrow> empty_options | Some opts \<Rightarrow> opts)) of
                (Inr result, trace) \<Rightarrow> (\<lparr>http_status = 200, body = VideosBody result\<rparr>, trace)
              | (Inl err, trace) \<Rightarrow>
                  (\<lparr>http_status = statusCode_for (error_message err),
                    body = ErrorBody (lit ''Video generation failed'') (error_message err)\<rparr>,
                   trace))))"

section \<open>The server (health check and error middleware)\<close>

text \<open>
  \<open>process.env\<close> maps a variable name to its value, when it is set. \<open>!!v\<close> is the
  truthiness of the value: set and not the empty string.
\<close>

type_synonym env = "string \<Rightarrow> jsstring option"

text \<open>
  \<open>validateEnvironment\<close>: the critical errors (the warnings do not stop the start).
  The server exits when the list is not empty.
\<close>

definition validateEnvironment_errors :: "env \<Rightarrow> jsstring list" where
  "validateEnvironment_errors e =
     (if \<not> truthy (e ''OPENAI_API_KEY'')
      then [lit ''OPENAI_API_KEY is missing - Required for script generation'']
      else [])"

record apis_flags =
  openai :: bool
  gemini :: bool
  vertex :: bool
  kieai :: bool

text \<open>
  The answer of \<open>GET /api/health\<close>; the readings of the clock, the uptime, the Node
  version and the memory are left out, and whether \<open>build/index.html\<close> exists is a
  parameter.
\<close>

record health_status =
  health :: jsstring
  environment :: jsstring
  apis :: apis_flags
  buildAvailable :: bool

definition get_health :: "env \<Rightarrow> bool \<Rightarrow> health_status" where
  "get_health e index_exists =
     \<lparr>health = lit ''ok'',
      environment = or_text (e ''NODE_ENV'') (lit ''development''),
      apis = \<lparr>openai = truthy (e ''OPENAI_API_KEY''),
              gemini = truthy (e ''GOOGLE_GEMINI_API_KEY''),
              vertex = truthy (e ''GOOGLE_APPLICATION_CREDENTIALS''),
              kieai = truthy (e ''KIEAI_API_KEY'')\<rparr>,
      buildAvailable = index_exists\<rparr>"

text \<open>The specification's word for a credential: it is configured when set to a non-empty value.\<close>

definition credential_present :: "env \<Rightarrow> string \<Rightarrow> bool" where
  "credential_present e name \<longleftrightarrow> (e name \<noteq> None \<and> e name \<noteq> Some [])"

text \<open>
  The error-handling middleware. \<open>err\<close> is the error that reached it, with its optional
  \<open>status\<close>, \<open>message\<close> and \<open>stack\<close>; \<open>rnd\<close> is \<open>Math.random().toString(36)\<close>, an
  external draw, of which \<open>substring(7)\<close> is the identifier.
\<close>

record thrown_error =
  err_status :: "nat option"
  err_message :: "jsstring option"
  err_stack :: "jsstring option"

record request_info =
  req_method :: jsstring
  req_url :: jsstring
  req_headers :: "(jsstring \<times> jsstring) list"

datatype dev_detail = NoDetail | Detail "jsstring option" request_info

record error_response =
  resp_status :: nat
  resp_error :: jsstring
  errorId :: jsstring
  resp_message :: "jsstring option"
  detail :: dev_detail

definition error_middleware :: "env \<Rightarrow> jsstring \<Rightarrow> thrown_error \<Rightarrow> request_info \<Rightarrow> error_response" where
  "error_middleware e rnd err req =
     (let errorId = drop 7 rnd;
          isDevelopment = (e ''NODE_ENV'' = Some (lit ''development''))
      in \<lparr>resp_status = (case err_status err of None \<Rightarrow> 500 | Some n \<Rightarrow> if n = 0 then 500 else n),
          resp_error = lit ''Internal server error'',
          errorId = errorId,
          resp_message = (if isDevelopment then err_message err
                          else Some (lit ''Something went wrong'')),
          detail = (if isDevelopment then Detail (err_stack err) req else NoDetail)\<rparr>)"

section \<open>The text-generation pipeline\<close>

text \<open>
  The server imports the generation routes and the text service
  (\<open>api/routes/generate.js\<close> and its siblings, \<open>api/services/openaiService.js\<close>), but
  they are not among the sources. The pipeline is therefore written from sections 3, 4.3
  and 7 of the specification.
\<close>

text \<open>
  Modelled from the spec: the error taxonomy of the pipeline, which is missing from the
  sources. A \<open>ValidationError\<close> is a malformed or too short Script; a provider error is
  the failure of the call with the given number.
\<close>

datatype pipeline_error = ValidationError | ProviderError nat

text \<open>
  Modelled from the spec: the HTTP equivalent of an error, missing from the sources. A
  \<open>ValidationError\<close> is the HTTP 400 equivalent; the mapping of provider errors is
  provider-specific and not fixed by the specification.
\<close>

fun http_equivalent :: "pipeline_error \<Rightarrow> nat option" where
  "http_equivalent ValidationError = Some 400"
| "http_equivalent (ProviderError k) = None"

text \<open>
  Modelled from the spec: the per-segment generation of the missing pipeline. One call to
  the text provider per segment, in order; \<open>text_provider k\<close> is the answer to call
  number \<open>k\<close>, \<open>None\<close> for a failure, and the first failure ends the run. The calls
  issued are returned with the result.
\<close>

fun generate_segments ::
  "(nat \<Rightarrow> jsstring option) \<Rightarrow> nat \<Rightarrow> jsstring list \<Rightarrow> (pipeline_error + jsstring list) \<times> nat list" where
  "generate_segments text_provider k [] = (Inr [], [])"
| "generate_segments text_provider k (d # ds) =
     (case text_provider k of
        None \<Rightarrow> (Inl (ProviderError k), [k])
      | Some out \<Rightarrow>
          (case generate_segments text_provider (k + 1) ds of
             (Inl e, calls) \<Rightarrow> (Inl e, k # calls)
           | (Inr outs, calls) \<Rightarrow> (Inr (out # outs), k # calls)))"

text \<open>
  Modelled from the spec: the missing generation pipeline. A Script shorter than 50
  characters is rejected with a \<open>ValidationError\<close>; otherwise the Script is split by the
  Segment Splitter \<open>split\<close>, zero segments are a validation error too, one call to the
  text provider gives the base description, and the per-segment calls follow.
\<close>

definition generation_pipeline ::
  "(jsstring \<Rightarrow> jsstring list) \<Rightarrow> (nat \<Rightarrow> jsstring option) \<Rightarrow> jsstring
     \<Rightarrow> (pipeline_error + jsstring list) \<times> nat list" where
  "generation_pipeline split text_provider script =
     (if length script < 50 then (Inl ValidationError, [])
      else if split script = [] then (Inl ValidationError, [])
      else (case text_provider 0 of
              None \<Rightarrow> (Inl (ProviderError 0), [0])
            | Some base \<Rightarrow>
                (case generate_segments text_provider 1 (split script) of
                   (r, calls) \<Rightarrow> (r, 0 # calls))))"

section \<open>Notions used to state the properties\<close>

text \<open>
  The adapter call the loop makes for segment \<open>i\<close>: what it returns or throws, the events
  it causes, and the entry the loop stores for it.
\<close>

definition adapter_outcome ::
  "service \<Rightarrow> (nat \<Rightarrow> request_data \<Rightarrow> http_result) \<Rightarrow> segment list \<Rightarrow> options \<Rightarrow> nat
     \<Rightarrow> js_error + video_ok" where
  "adapter_outcome svc provider segs opts i =
     fst (generateVideoFromSegment svc (provider i) (segs ! i) (opts\<lparr>opt_segmentIndex := Some i\<rparr>))"

definition adapter_events ::
  "service \<Rightarrow> (nat \<Rightarrow> request_data \<Rightarrow> http_result) \<Rightarrow> segment list \<Rightarrow> options \<Rightarrow> nat
     \<Rightarrow> event list" where
  "adapter_events svc provider segs opts i =
     snd (generateVideoFromSegment svc (provider i) (segs ! i) (opts\<lparr>opt_segmentIndex := Some i\<rparr>))"

definition result_entry ::
  "service \<Rightarrow> (nat \<Rightarrow> request_data \<Rightarrow> http_result) \<Rightarrow> segment list \<Rightarrow> options \<Rightarrow> nat
     \<Rightarrow> video_result" where
  "result_entry svc provider segs opts i =
     (case adapter_outcome svc provider segs opts i of
        Inr v \<Rightarrow> Generated v
      | Inl e \<Rightarrow> Failed (failed_segment_number (segs ! i) i) (error_message e))"

definition call_failed ::
  "service \<Rightarrow> (nat \<Rightarrow> request_data \<Rightarrow> http_result) \<Rightarrow> segment list \<Rightarrow> options \<Rightarrow> nat \<Rightarrow> bool" where
  "call_failed svc provider segs opts i = isl (adapter_outcome svc provider segs opts i)"

text \<open>
  The duration and the audio flag of the request the adapter sends; they do not depend
  on the prompt.
\<close>

definition requested_duration :: "options \<Rightarrow> jsstring" where
  "requested_duration opts = duration (requestData_of [] opts)"

definition requested_audio :: "options \<Rightarrow> bool" where
  "requested_audio opts = generate_audio (requestData_of [] opts)"

definition per_second_rate :: "bool \<Rightarrow> jsnum" where
  "per_second_rate audio = (if audio then js_literal (40 / 100) else js_literal (20 / 100))"

text \<open>
  The seconds charged for a duration string: the integer its digits denote, as a number,
  or 8 when the string has no digit or its digits denote zero.
\<close>

definition charged_seconds :: "jsstring \<Rightarrow> jsnum" where
  "charged_seconds dur =
     (if spec_seconds dur = 0 then Finite 8 else round_double (of_nat (spec_seconds dur)))"

fun is_post :: "event \<Rightarrow> bool" where
  "is_post (Post r) = True"
| "is_post (Sleep ms) = False"

section \<open>Scenarios\<close>

text \<open>
  Concrete inputs: a service with a key, plain segments in the standard format, a provider
  answer with a video, a rejection with a given HTTP status, and providers that reject
  the second, or the first, call of a batch with status 429.
\<close>

definition live_service :: service where
  "live_service = new_FalAIService (\<lambda>name. if name = ''FALAI_API_KEY'' then Some (lit ''key'') else None)"

definition plain_segment :: "nat \<Rightarrow> segment" where
  "plain_segment n =
     \<lparr>segment_info = Some \<lparr>segment_number = Some n, continuity_markers = False\<rparr>,
      character_description = Some \<lparr>current_state = Some (lit ''Smiling'')\<rparr>,
      action_timeline = Some \<lparr>dialogue = Some (lit ''Hello  there''), synchronized_actions = None,
                               micro_expressions = None\<rparr>,
      scene_continuity = None\<rparr>"

definition ok_response :: http_result where
  "ok_response =
     Resolved \<lparr>video_url = Some (lit ''https://v/1.mp4''), data_status = None,
               request_id = Some (lit ''r1'')\<rparr>"

definition rejection :: "nat \<Rightarrow> axios_error" where
  "rejection st =
     \<lparr>response = Some (st, None), code = None, request = True,
      message = lit ''Request failed''\<rparr>"

definition rejected_with :: "nat \<Rightarrow> http_result" where
  "rejected_with st = Rejected (rejection st)"

definition second_call_429 :: "nat \<Rightarrow> request_data \<Rightarrow> http_result" where
  "second_call_429 i r = (if i = 1 then rejected_with 429 else ok_response)"

definition first_call_429 :: "nat \<Rightarrow> request_data \<Rightarrow> http_result" where
  "first_call_429 i r = (if i = 0 then rejected_with 429 else ok_response)"

definition three_segments :: "segment list" where
  "three_segments = [plain_segment 1, plain_segment 2, plain_segment 3]"

definition two_segments :: "segment list" where
  "two_segments = [plain_segment 1, plain_segment 2]"

text \<open>Options that request a duration of zero seconds, and a provider that accepts every call.\<close>

definition zero_duration_options :: options where
  "zero_duration_options = empty_options\<lparr>opt_duration := Some (lit ''0s'')\<rparr>"

definition accepting_provider :: "nat \<Rightarrow> request_data \<Rightarrow> http_result" where
  "accepting_provider i r = ok_response"

definition zero_duration_run :: "(js_error + batch_result) \<times> event list" where
  "zero_duration_run =
     generateVideosForAllSegments live_service accepting_provider [plain_segment 1]
       zero_duration_options"

text \<open>A segment with nothing in it, which takes the standard template with every default.\<close>

definition bare_segment :: segment where
  "bare_segment =
     \<lparr>segment_info = None, character_description = None, action_timeline = None,
      scene_continuity = None\<rparr>"

text \<open>
  Environments: only the mandatory credential set; \<open>NODE_ENV\<close> set to development and
  to production. An error and a request for the error middleware.
\<close>

definition openai_only_env :: env where
  "openai_only_env name = (if name = ''OPENAI_API_KEY'' then Some (lit ''sk-test'') else None)"

definition development_env :: env where
  "development_env name = (if name = ''NODE_ENV'' then Some (lit ''development'') else None)"

definition production_env :: env where
  "production_env name = (if name = ''NODE_ENV'' then Some (lit ''production'') else None)"

definition sample_error :: thrown_error where
  "sample_error =
     \<lparr>err_status = None, err_message = Some (lit ''boom''),
      err_stack = Some (lit ''Error: boom at handler'')\<rparr>"

definition sample_request :: request_info where
  "sample_request = \<lparr>req_method = lit ''GET'', req_url = lit ''/api/x'', req_headers = []\<rparr>"

section \<open>The loop of the fan-out in closed form\<close>

declare fanout_loop.simps [simp del]

text \<open>
  Started at index \<open>i\<close>, the loop appends one entry per remaining segment, one error
  record per failed call, and the events of each call, followed by the pause when the
  call succeeded and was not the last.
\<close>

lemma fanout_loop_closed:
  "i \<le> length segs \<Longrightarrow>
   fanout_loop svc provider segs opts i results errs trace =
     (results @ map (result_entry svc provider segs opts) [i..<length segs],
      errs @ map (\<lambda>j. \<lparr>segmentIndex = j + 1,
                        error = error_message (projl (adapter_outcome svc provider segs opts j))\<rparr>)
               (filter (call_failed svc provider segs opts) [i..<length segs]),
      trace @ concat (map (\<lambda>j. adapter_events svc provider segs opts j
                               @ (if \<not> call_failed svc provider segs opts j \<and> j < length segs - 1
                                  then [Sleep 1000] else []))
                        [i..<length segs]))"
proof (induction svc provider segs opts i results errs trace rule: fanout_loop.induct)
  case (1 svc provider segs opts i results errs trace)
  show ?case
  proof (cases "i < length segs")
    case False
    with "1.prems" show ?thesis by (subst fanout_loop.simps) simp
  next
    case True
    obtain r evs where g: "generateVideoFromSegment svc (provider i) (segs ! i)
                (opts\<lparr>opt_segmentIndex := Some i\<rparr>) = (r, evs)" by force
    have idx: "[i..<length segs] = i # [Suc i..<length segs]"
      using True by (simp add: upt_conv_Cons)
    have here: "adapter_outcome svc provider segs opts i = r"
               "adapter_events svc provider segs opts i = evs"
               "call_failed svc provider segs opts i = isl r"
      using g by (simp_all add: adapter_outcome_def adapter_events_def call_failed_def)
    show ?thesis
    proof (cases r)
      case (Inl e)
      have "fanout_loop svc provider segs opts i results errs trace =
            fanout_loop svc provider segs opts (i + 1)
               (results @ [Failed (failed_segment_number (segs ! i) i) (error_message e)])
               (errs @ [\<lparr>segmentIndex = i + 1, error = error_message e\<rparr>])
               (trace @ evs)"
        using True g Inl by (subst fanout_loop.simps) simp
      also have "\<dots> = (results @ [Failed (failed_segment_number (segs ! i) i) (error_message e)] @ map (result_entry svc provider segs opts) [Suc i..<length segs],
          (errs @ [\<lparr>segmentIndex = i + 1, error = error_message e\<rparr>]) @ map (\<lambda>j. \<lparr>segmentIndex = j + 1,
                        error = error_message (projl (adapter_outcome svc provider segs opts j))\<rparr>)
               (filter (call_failed svc provider segs opts) [Suc i..<length segs]),
          (trace @ evs) @ concat (map (\<lambda>j. adapter_events svc provider segs opts j
                               @ (if \<not> call_failed svc provider segs opts j \<and> j < length segs - 1
                                  then [Sleep 1000] else []))
                        [Suc i..<length segs]))"
        using "1.IH"(1)[OF True g[symmetric] Inl] True by simp
      finally show ?thesis
        using here Inl by (simp add: idx result_entry_def)
    next
      case (Inr v)
      have "fanout_loop svc provider segs opts i results errs trace =
            fanout_loop svc provider segs opts (i + 1) (results @ [Generated v]) errs
               (trace @ evs @ (if i < length segs - 1 then [Sleep 1000] else []))"
        using True g Inr by (subst fanout_loop.simps) simp
      also have "\<dots> = ((results @ [Generated v]) @ map (result_entry svc provider segs opts) [Suc i..<length segs],
          errs @ map (\<lambda>j. \<lparr>segmentIndex = j + 1,
                        error = error_message (projl (adapter_outcome svc provider segs opts j))\<rparr>)
               (filter (call_failed svc provider segs opts) [Suc i..<length segs]),
          (trace @ evs @ (if i < length segs - 1 then [Sleep 1000] else [])) @ concat (map (\<lambda>j. adapter_events svc provider segs opts j
                               @ (if \<not> call_failed svc provider segs opts j \<and> j < length segs - 1
                                  then [Sleep 1000] else []))
                        [Suc i..<length segs]))"
        using "1.IH"(2)[OF True g[symmetric] Inr] True by simp
      finally show ?thesis
        using here Inr by (simp add: idx result_entry_def)
    qed
  qed
qed

section \<open>Rounding to a double\<close>

text \<open>
  The exponent found for a positive \<open>x\<close> is \<open>\<lfloor>log\<^sub>2 x\<rfloor>\<close>. A number in the normal
  range is rounded to a double that is at least the power of two below it, so it is
  never rounded to zero, and a number that is at least 1 stays at least 1.
\<close>

lemma log2_up_bounds:
  "1 \<le> x \<Longrightarrow> 2 ^ log2_up x \<le> x \<and> x < 2 ^ Suc (log2_up x)"
proof (induction x rule: log2_up.induct)
  case (1 x)
  show ?case
  proof (cases "x < 2")
    case True
    then have "log2_up x = 0" by (subst log2_up.simps) simp
    with True "1.prems" show ?thesis by simp
  next
    case False
    then have "1 \<le> x / 2" by simp
    moreover have "log2_up x = Suc (log2_up (x / 2))"
      using False by (subst log2_up.simps) simp
    ultimately show ?thesis using "1.IH"[OF False] by simp
  qed
qed

lemma log2_down_bounds:
  "0 < x \<Longrightarrow> x < 1 \<Longrightarrow> 1 \<le> x * 2 ^ log2_down x \<and> x * 2 ^ log2_down x < 2"
proof (induction x rule: log2_down.induct)
  case (1 x)
  have step: "\<not> (x \<le> 0 \<or> 1 \<le> x)" using "1.prems" by simp
  show ?case
  proof (cases "2 * x < 1")
    case True
    from "1.IH"[OF step _ True] "1.prems" step have "1 \<le> 2 * x * 2 ^ log2_down (2 * x) \<and> 2 * x * 2 ^ log2_down (2 * x) < 2"
      by simp
    moreover have "log2_down x = Suc (log2_down (2 * x))"
      using step by (subst log2_down.simps) simp
    ultimately show ?thesis by (simp add: mult.assoc mult.left_commute)
  next
    case False
    then have "log2_down (2 * x) = 0" by (subst log2_down.simps) simp
    then have "log2_down x = 1" using step by (subst log2_down.simps) simp
    with False "1.prems" show ?thesis by simp
  qed
qed

lemma floor_log2_bounds:
  assumes "0 < x"
  shows "2 powi floor_log2 x \<le> x \<and> x < 2 powi (floor_log2 x + 1)"
proof (cases "1 \<le> x")
  case True
  have "2 powi (int (log2_up x) + 1) = (2::rat) ^ Suc (log2_up x)"
    by (simp add: power_int_add)
  with log2_up_bounds[OF True] True show ?thesis
    by (simp add: floor_log2_def)
next
  case False
  then have lt: "x < 1" by simp
  let ?k = "log2_down x"
  have b: "1 \<le> x * 2 ^ ?k" "x * 2 ^ ?k < 2" using log2_down_bounds[OF assms lt] by auto
  have p: "(2::rat) powi (- int ?k) = 1 / 2 ^ ?k"
    by (simp add: power_int_minus_divide)
  have q: "(2::rat) powi (1 - int ?k) = 2 / 2 ^ ?k"
    by (simp add: power_int_diff)
  have "1 / 2 ^ ?k \<le> x" using b(1) by (simp add: field_simps)
  moreover have "x < 2 / 2 ^ ?k" using b(2) by (simp add: field_simps)
  ultimately show ?thesis using lt by (simp add: floor_log2_def p q)
qed

lemma round_ties_even_ge: "\<lfloor>q\<rfloor> \<le> round_ties_even q"
  by (simp add: round_ties_even_def Let_def)

lemma round_double_normal:
  assumes "2 powi (- 1022) \<le> x"
  shows "round_double x = Infinity \<or> (\<exists>y. round_double x = Finite y \<and> 2 powi floor_log2 x \<le> y)"
proof -
  let ?e = "floor_log2 x"
  have pos: "0 < x"
    using assms zero_less_power_int[of "2::rat" "- 1022"] by linarith
  note b = floor_log2_bounds[OF pos]
  have "(2::rat) powi (- 1022) < 2 powi (?e + 1)" using assms b by linarith
  then have "- 1022 < ?e + 1"
    using power_int_increasing[of "?e + 1" "- 1022" "2::rat"] by (cases "- 1022 < ?e + 1") auto
  then have e: "max ?e (- 1022) = ?e" by simp
  let ?ulp = "(2::rat) powi (?e - 52)"
  have ulp: "0 < ?ulp" by simp
  have "(2::rat) powi ?e / ?ulp = 2 powi (?e - (?e - 52))"
    by (subst power_int_diff) simp_all
  then have ratio: "(2::rat) powi ?e / ?ulp = 2 ^ 52" by simp
  have "2 powi ?e / ?ulp \<le> x / ?ulp"
    using b ulp by (simp add: divide_right_mono)
  then have "(2::rat) ^ 52 \<le> x / ?ulp" using ratio by simp
  then have "\<lfloor>(2::rat) ^ 52\<rfloor> \<le> \<lfloor>x / ?ulp\<rfloor>" by (rule floor_mono)
  moreover have "\<lfloor>(2::rat) ^ 52\<rfloor> = 2 ^ 52" by simp
  ultimately have n: "2 ^ 52 \<le> round_ties_even (x / ?ulp)"
    using round_ties_even_ge[of "x / ?ulp"] by linarith
  let ?y = "of_int (round_ties_even (x / ?ulp)) * ?ulp"
  have "(2::rat) ^ 52 \<le> of_int (round_ties_even (x / ?ulp))"
    using n by (metis of_int_le_iff of_int_numeral of_int_power)
  then have le: "2 ^ 52 * ?ulp \<le> ?y" using ulp by (rule mult_right_mono[OF _ less_imp_le])
  have "(2::rat) powi ?e = 2 ^ 52 * ?ulp"
    using ratio ulp by (simp add: field_simps)
  also note le
  finally have y: "2 powi ?e \<le> ?y" .
  have "round_double x = (if 2 ^ 1024 \<le> ?y then Infinity else Finite ?y)"
    using pos by (simp add: round_double_def Let_def e)
  with y show ?thesis by auto
qed

lemma round_double_truthy: "2 powi (- 1022) \<le> x \<Longrightarrow> js_truthy (round_double x)"
proof -
  assume a: "2 powi (- 1022) \<le> x"
  have p: "0 < (2::rat) powi floor_log2 x" by simp
  from round_double_normal[OF a] show ?thesis
  proof
    assume "round_double x = Infinity"
    then show ?thesis by simp
  next
    assume "\<exists>y. round_double x = Finite y \<and> 2 powi floor_log2 x \<le> y"
    then obtain y where y: "round_double x = Finite y" "2 powi floor_log2 x \<le> y" by blast
    from y(2) p have "y \<noteq> 0" by linarith
    with y(1) show ?thesis by simp
  qed
qed

lemma round_double_ge_one:
  assumes "1 \<le> x"
  shows "round_double x = Infinity \<or> (\<exists>y. round_double x = Finite y \<and> 1 \<le> y)"
proof -
  have "(2::rat) powi (- 1022) \<le> 1" by (simp add: power_int_minus_divide)
  then have a: "2 powi (- 1022) \<le> x" using assms by linarith
  have "0 \<le> floor_log2 x" using assms by (simp add: floor_log2_def)
  then have "1 \<le> (2::rat) powi floor_log2 x" by simp
  with round_double_normal[OF a] show ?thesis by force
qed

text \<open>The definitions that evaluate a rounding on concrete numbers.\<close>

lemma floor_numeral_div:
  "\<lfloor>(numeral a :: rat) / numeral b\<rfloor> = numeral a div numeral b"
  by (metis floor_divide_of_int_eq of_int_numeral)

lemmas eval_double =
  round_double_def floor_log2_def log2_up.simps log2_down.simps round_ties_even_def Let_def
  floor_numeral_div js_literal_def round_cents_def

lemmas eval_seconds =
  charged_seconds_def per_second_rate_def spec_seconds_def duration_digits_def is_digit_def
  lit_def

lemma rate_literals:
  "js_literal (40 / 100) = Finite (3602879701896397 / 2 ^ 53)"
  "js_literal (20 / 100) = Finite (3602879701896397 / 2 ^ 54)"
  by (simp_all add: eval_double)

section \<open>Reading the duration\<close>

text \<open>
  \<open>parseInt\<close> on the stripped duration reads the number the digits denote; the
  fall-back \<open>|| 8\<close> replaces both the missing number and zero. The seconds are at
  least 1, the rate is at least an eighth, and so the cost of a call is truthy.
\<close>

lemma foldl_decimal:
  "foldl (\<lambda>a c. 10 * a + (c - 48)) a ds
     = a * 10 ^ length ds + decimal_value (map (\<lambda>c. c - 48) ds)"
  by (induction ds arbitrary: a) (simp_all add: algebra_simps)

lemma parseInt_stripped:
  "parseInt (strip_non_digits d)
     = (if duration_digits d = [] then NaN else round_double (of_nat (spec_seconds d)))"
proof -
  have tw: "takeWhile is_digit (filter is_digit d) = filter is_digit d"
    by (simp add: takeWhile_eq_all_conv)
  show ?thesis
    by (simp add: parseInt_def strip_non_digits_def duration_digits_def spec_seconds_def
          foldl_decimal Let_def tw)
qed

lemma round_double_of_nat_truthy:
  "0 < n \<Longrightarrow> js_truthy (round_double (of_nat n))"
proof -
  assume "0 < n"
  then have "(1::rat) \<le> of_nat n" by simp
  from round_double_ge_one[OF this] show ?thesis by auto
qed

lemma duration_seconds_charged: "duration_seconds d = charged_seconds d"
proof (cases "spec_seconds d = 0")
  case True
  have "round_double (of_nat (spec_seconds d)) = Finite 0"
    using True by (simp add: round_double_def)
  then show ?thesis
    using True by (simp add: duration_seconds_def charged_seconds_def parseInt_stripped Let_def)
next
  case False
  then have ne: "duration_digits d \<noteq> []" by (auto simp: spec_seconds_def)
  from False have "js_truthy (round_double (of_nat (spec_seconds d)))"
    by (simp add: round_double_of_nat_truthy)
  then show ?thesis
    using False ne by (simp add: duration_seconds_def charged_seconds_def parseInt_stripped Let_def)
qed

lemma charged_seconds_ge_one:
  "charged_seconds d = Infinity \<or> (\<exists>y. charged_seconds d = Finite y \<and> 1 \<le> y)"
proof (cases "spec_seconds d = 0")
  case True
  then show ?thesis by (simp add: charged_seconds_def)
next
  case False
  then have "(1::rat) \<le> of_nat (spec_seconds d)" by simp
  from round_double_ge_one[OF this] False show ?thesis by (simp add: charged_seconds_def)
qed

lemma baseRate_per_second: "baseRate (Some a) = per_second_rate a"
  by (simp add: baseRate_def per_second_rate_def)

lemma calculateCost_charged:
  "calculateCost d (Some a) = js_mul (charged_seconds d) (per_second_rate a)"
  by (simp add: calculateCost_def duration_seconds_charged baseRate_per_second)

lemma cost_truthy: "js_truthy (js_mul (charged_seconds d) (per_second_rate a))"
proof -
  have "per_second_rate a = Finite (3602879701896397 / 2 ^ 53)
        \<or> per_second_rate a = Finite (3602879701896397 / 2 ^ 54)"
    unfolding per_second_rate_def rate_literals by simp
  moreover have "(1::rat) / 8 \<le> 3602879701896397 / 2 ^ 53"
    and "(1::rat) / 8 \<le> 3602879701896397 / 2 ^ 54" by simp_all
  ultimately obtain r where r: "per_second_rate a = Finite r" "1 / 8 \<le> r"
    by blast
  from charged_seconds_ge_one[of d] show ?thesis
  proof
    assume "charged_seconds d = Infinity"
    then show ?thesis using r by simp
  next
    assume "\<exists>y. charged_seconds d = Finite y \<and> 1 \<le> y"
    then obtain y where y: "charged_seconds d = Finite y" "1 \<le> y" by blast
    have "1 / 8 * 1 \<le> r * y"
      using r(2) y(2) by (intro mult_mono) simp_all
    then have "1 / 8 \<le> y * r" by (simp add: mult.commute)
    moreover have "(2::rat) powi (- 1022) \<le> 1 / 8"
      by (simp add: power_int_minus_divide)
    ultimately have "2 powi (- 1022) \<le> y * r" by linarith
    then have "js_truthy (round_double (y * r))" by (rule round_double_truthy)
    then show ?thesis using r(1) y(1) by simp
  qed
qed

section \<open>The result of the fan-out\<close>

text \<open>
  A successful call carries the cost of the request's duration and audio flag, which is
  truthy, so the filter on truthy costs keeps every successful entry.
\<close>

lemma requestData_of_duration:
  "duration (requestData_of p (opts\<lparr>opt_segmentIndex := k\<rparr>)) = requested_duration opts"
  "generate_audio (requestData_of p (opts\<lparr>opt_segmentIndex := k\<rparr>)) = requested_audio opts"
  by (simp_all add: requestData_of_def requested_duration_def requested_audio_def
        spread_falaiOptions_def split: option.splits)

lemma adapter_success:
  assumes "adapter_outcome svc provider segs opts i = Inr v"
  shows "cost v = js_mul (charged_seconds (requested_duration opts))
                    (per_second_rate (requested_audio opts))"
    and "vid_duration v = requested_duration opts"
    and "md_generateAudio v = requested_audio opts"
    and "segmentNumber v = (case segment_info (segs ! i) of None \<Rightarrow> None | Some si \<Rightarrow> segment_number si)"
  using assms
  by (auto simp: adapter_outcome_def generateVideoFromSegment_def Let_def calculateCost_charged
        requestData_of_duration
        split: if_splits sum.splits http_result.splits)

lemma generateAll_closed:
  assumes "initialized svc"
  shows "generateVideosForAllSegments svc provider segs opts =
     (let results = map (result_entry svc provider segs opts) [0..<length segs];
          errs = map (\<lambda>j. \<lparr>segmentIndex = j + 1,
                        error = error_message (projl (adapter_outcome svc provider segs opts j))\<rparr>)
               (filter (call_failed svc provider segs opts) [0..<length segs])
      in (Inr \<lparr>success = (0 < length (filter entry_success results)),
                       videos = results,
                       totalSegments = length segs,
                       successCount = length (filter entry_success results),
                       failureCount = length errs,
                       totalCost = round_cents (foldl add_cost (Finite 0) (filter billable results)),
                       errors = (if 0 < length errs then Some errs else None)\<rparr>,
          concat (map (\<lambda>j. adapter_events svc provider segs opts j
                               @ (if \<not> call_failed svc provider segs opts j \<and> j < length segs - 1
                                  then [Sleep 1000] else []))
                        [0..<length segs])))"
  using assms
  by (simp add: generateVideosForAllSegments_def fanout_loop_closed[of 0, simplified] Let_def)

lemma entry_success_result:
  "entry_success (result_entry svc provider segs opts i) = (\<not> call_failed svc provider segs opts i)"
  by (simp add: result_entry_def call_failed_def split: sum.splits)

lemma billable_result:
  "billable (result_entry svc provider segs opts i) = (\<not> call_failed svc provider segs opts i)"
proof (cases "adapter_outcome svc provider segs opts i")
  case (Inl e)
  then show ?thesis by (simp add: result_entry_def call_failed_def)
next
  case (Inr v)
  have "js_truthy (cost v)"
    unfolding adapter_success(1)[OF Inr] by (rule cost_truthy)
  with Inr show ?thesis by (simp add: result_entry_def call_failed_def)
qed

lemma foldl_add_cost:
  "\<forall>j\<in>set js. \<not> call_failed svc provider segs opts j \<Longrightarrow>
   foldl add_cost a (map (result_entry svc provider segs opts) js) =
     foldl js_add a
       (map (\<lambda>j. js_mul (charged_seconds (requested_duration opts))
                    (per_second_rate (requested_audio opts))) js)"
proof (induction js arbitrary: a)
  case Nil
  show ?case by simp
next
  case (Cons j js)
  from Cons.prems obtain v where v: "adapter_outcome svc provider segs opts j = Inr v"
    by (cases "adapter_outcome svc provider segs opts j") (auto simp: call_failed_def)
  from Cons.prems have rest: "\<forall>j\<in>set js. \<not> call_failed svc provider segs opts j" by simp
  show ?case
    using Cons.IH[OF rest] v adapter_success(1)[OF v] by (simp add: result_entry_def)
qed

lemma generateAll_initialized:
  "generateVideosForAllSegments svc provider segs opts = (Inr res, trace) \<Longrightarrow> initialized svc"
  by (cases "initialized svc") (simp_all add: generateVideosForAllSegments_def)

lemma filter_upt_single:
  "i < n \<Longrightarrow> filter (\<lambda>j. j = i \<and> P j) [0..<n] = (if P i then [i] else [])"
proof (induction n)
  case 0
  then show ?case by simp
next
  case (Suc n)
  show ?case
  proof (cases "i < n")
    case True
    then show ?thesis using Suc.IH by auto
  next
    case False
    with Suc.prems have "i = n" by simp
    moreover have "filter (\<lambda>j. j = n \<and> P j) [0..<n] = []"
      by (simp add: filter_empty_conv)
    ultimately show ?thesis by simp
  qed
qed

lemma adapter_events_post:
  "initialized svc \<Longrightarrow> createVideoPrompt (segs ! j) opts = Inr p \<Longrightarrow>
     adapter_events svc provider segs opts j = [Post (requestData_of p opts)]"
  by (simp add: adapter_events_def generateVideoFromSegment_def createVideoPrompt_def
        requestData_of_def Let_def split: http_result.splits sum.splits if_splits)

lemma mem_concat_events:
  "x \<in> set (f j) \<Longrightarrow> j \<in> set js \<Longrightarrow> x \<in> set (concat (map (\<lambda>j. f j @ g j) js))"
  by (induction js) auto


section \<open>The scenarios, evaluated\<close>

lemma live_service_initialized: "initialized live_service"
  by (simp add: live_service_def new_FalAIService_def truthy_def lit_def)

lemma plain_segment_prompt:
  "createVideoPrompt (plain_segment n) opts = Inr (clean_prompt (standard_template (plain_segment n)))"
  by (simp add: createVideoPrompt_def isEnhanced_def plain_segment_def)

lemma run_Inr:
  "initialized svc \<Longrightarrow> \<exists>res trace. generateVideosForAllSegments svc provider segs opts = (Inr res, trace)"
  by (simp add: generateAll_closed Let_def)

lemma scenario_second_call:
  "adapter_outcome live_service second_call_429 three_segments empty_options 1
     = Inl (Error (lit ''Rate limit exceeded. Please wait and try again''))"
  by (simp add: adapter_outcome_def generateVideoFromSegment_def
        live_service_initialized three_segments_def plain_segment_prompt Let_def
        second_call_429_def rejected_with_def rejection_def translate_error_def)

section \<open>The video fan-out\<close>

text \<open>
  The counts and the total of a returned batch: the successes, the failures, and the
  sum from the left, rounded to cents, of the costs of the successful calls.
\<close>

lemma fanout_result_fields:
  assumes run: "generateVideosForAllSegments svc provider segs opts = (Inr res, trace)"
  shows "successCount res
           = length (filter (\<lambda>i. \<not> call_failed svc provider segs opts i) [0..<length segs])"
    and "failureCount res = length (filter (call_failed svc provider segs opts) [0..<length segs])"
    and "totalCost res =
           round_cents (foldl js_add (Finite 0)
             (map (\<lambda>i. js_mul (charged_seconds (requested_duration opts))
                          (per_second_rate (requested_audio opts)))
                (filter (\<lambda>i. \<not> call_failed svc provider segs opts i) [0..<length segs])))"
proof -
  let ?idx = "[0..<length segs]"
  let ?ok = "\<lambda>i. \<not> call_failed svc provider segs opts i"
  have init: "initialized svc" using run by (rule generateAll_initialized)
  show "successCount res = length (filter ?ok ?idx)"
    using run unfolding generateAll_closed[OF init]
    by (auto simp: Let_def filter_map o_def entry_success_result)
  show "failureCount res = length (filter (call_failed svc provider segs opts) ?idx)"
    using run unfolding generateAll_closed[OF init] by (auto simp: Let_def)
  have bill: "filter billable (map (result_entry svc provider segs opts) ?idx)
                = map (result_entry svc provider segs opts) (filter ?ok ?idx)"
    by (simp add: filter_map o_def billable_result)
  have total: "foldl add_cost (Finite 0) (filter billable (map (result_entry svc provider segs opts) ?idx))
                = foldl js_add (Finite 0)
                    (map (\<lambda>i. js_mul (charged_seconds (requested_duration opts))
                                 (per_second_rate (requested_audio opts)))
                       (filter ?ok ?idx))"
    unfolding bill by (rule foldl_add_cost) simp
  show "totalCost res =
           round_cents (foldl js_add (Finite 0)
             (map (\<lambda>i. js_mul (charged_seconds (requested_duration opts))
                          (per_second_rate (requested_audio opts)))
                (filter ?ok ?idx)))"
    using run unfolding generateAll_closed[OF init] Let_def
    by (auto simp only: total prod.inject sum.inject batch_result.simps)
qed

text \<open>
  Claim C1, as the code has it. When the fan-out over \<open>N\<close> segments returns and exactly
  \<open>M\<close> of its \<open>N\<close> adapter calls failed, the result has \<open>successCount = N - M\<close> and
  \<open>failureCount = M\<close>, and \<open>totalCost\<close> is \<open>Math.round(S * 100) / 100\<close>, where \<open>S\<close>
  is the sum in doubles, over the successful calls only and from the left, of the
  seconds charged for the requested duration times the per-second rate (0.40 with
  audio, 0.20 without); the seconds charged are the integer the digits of the duration
  denote, or 8 when it has no digit or the digits denote zero. With an initialized
  service the fan-out always returns (\<open>run_Inr\<close>).
\<close>

theorem fanout_counts_and_cost:
  assumes run: "generateVideosForAllSegments svc provider segs opts = (Inr res, trace)"
    and fails: "length (filter (call_failed svc provider segs opts) [0..<length segs]) = M"
  shows "successCount res = length segs - M
       \<and> failureCount res = M
       \<and> totalCost res =
           round_cents (foldl js_add (Finite 0)
             (map (\<lambda>i. js_mul (charged_seconds (requested_duration opts))
                          (per_second_rate (requested_audio opts)))
                (filter (\<lambda>i. \<not> call_failed svc provider segs opts i) [0..<length segs])))"
proof -
  have split: "length (filter (\<lambda>i. \<not> call_failed svc provider segs opts i) [0..<length segs]) + M
                 = length segs"
    using sum_length_filter_compl[of "call_failed svc provider segs opts" "[0..<length segs]"] fails
    by simp
  show ?thesis
    using fanout_result_fields[OF run] fails split by simp
qed

text \<open>
  The scenario of the specification: three segments, the second call rejected with
  status 429. Two calls of 8 seconds with audio are charged, 6.4 in all.
\<close>

theorem fanout_counts_and_cost_witness:
  "(let run = generateVideosForAllSegments live_service second_call_429 three_segments empty_options
    in \<not> isl (fst run)
       \<and> successCount (projr (fst run)) = 2
       \<and> failureCount (projr (fst run)) = 1
       \<and> totalCost (projr (fst run)) = js_literal (64 / 10))"
proof -
  let ?run = "generateVideosForAllSegments live_service second_call_429 three_segments empty_options"
  obtain res trace where run: "?run = (Inr res, trace)"
    using run_Inr[OF live_service_initialized] by blast
  have f0: "\<not> call_failed live_service second_call_429 three_segments empty_options 0"
    and f1: "call_failed live_service second_call_429 three_segments empty_options 1"
    and f2: "\<not> call_failed live_service second_call_429 three_segments empty_options 2"
    by (simp_all add: call_failed_def adapter_outcome_def generateVideoFromSegment_def
          live_service_initialized three_segments_def plain_segment_prompt Let_def
          second_call_429_def ok_response_def rejected_with_def)
  have idx: "[0..<length three_segments] = [0, 1, 2]"
    by (simp add: three_segments_def upt_rec)
  have fails: "length (filter (call_failed live_service second_call_429 three_segments empty_options)
                  [0..<length three_segments]) = 1"
    unfolding idx using f0 f1 f2 by simp
  have oks: "filter (\<lambda>i. \<not> call_failed live_service second_call_429 three_segments empty_options i)
               [0..<length three_segments] = [0, 2]"
    unfolding idx using f0 f1 f2 by simp
  have dur: "requested_duration empty_options = lit ''8s''"
    by (simp add: requested_duration_def requestData_of_def empty_options_def
          spread_falaiOptions_def or_text_def lit_def)
  have audio: "requested_audio empty_options = True"
    by (simp add: requested_audio_def requestData_of_def empty_options_def spread_falaiOptions_def)
  have sum: "round_cents (foldl js_add (Finite 0)
               (map (\<lambda>i. js_mul (charged_seconds (lit ''8s'')) (per_second_rate True)) [0::nat, 2]))
             = js_literal (64 / 10)"
    by (simp add: eval_double eval_seconds)
  have len: "length three_segments = 3" by (simp add: three_segments_def)
  from fanout_counts_and_cost[OF run fails]
  have "successCount res = 2 \<and> failureCount res = 1 \<and> totalCost res = js_literal (64 / 10)"
    unfolding oks dur audio sum by (simp add: len)
  then show ?thesis using run by (simp add: Let_def)
qed

text \<open>
  Claim C1, as stated, fails when the requested duration is \<open>0s\<close>: one call succeeds,
  the requested duration is zero seconds, so the sum of rate times seconds is 0, and the
  total cost is that of 8 seconds, 3.2.
\<close>

theorem fanout_zero_duration_counterexample:
  "\<not> isl (fst zero_duration_run)
   \<and> successCount (projr (fst zero_duration_run)) = 1
   \<and> failureCount (projr (fst zero_duration_run)) = 0
   \<and> spec_seconds (requested_duration zero_duration_options) = 0
   \<and> js_mul (round_double (of_nat (spec_seconds (requested_duration zero_duration_options))))
        (per_second_rate (requested_audio zero_duration_options)) = Finite 0
   \<and> totalCost (projr (fst zero_duration_run)) = js_literal (32 / 10)
   \<and> totalCost (projr (fst zero_duration_run)) \<noteq> Finite 0"
proof -
  let ?run = "generateVideosForAllSegments live_service accepting_provider [plain_segment 1]
                zero_duration_options"
  obtain res trace where run: "?run = (Inr res, trace)"
    using run_Inr[OF live_service_initialized] by blast
  have f0: "\<not> call_failed live_service accepting_provider [plain_segment 1] zero_duration_options 0"
    by (simp add: call_failed_def adapter_outcome_def generateVideoFromSegment_def
          live_service_initialized plain_segment_prompt Let_def accepting_provider_def
          ok_response_def)
  have dur: "requested_duration zero_duration_options = lit ''0s''"
    by (simp add: requested_duration_def requestData_of_def zero_duration_options_def
          empty_options_def spread_falaiOptions_def or_text_def lit_def)
  have audio: "requested_audio zero_duration_options = True"
    by (simp add: requested_audio_def requestData_of_def zero_duration_options_def
          empty_options_def spread_falaiOptions_def)
  have zero: "spec_seconds (lit ''0s'') = 0" by (simp add: eval_seconds)
  have claimed: "js_mul (round_double (of_nat (0::nat))) (per_second_rate True) = Finite 0"
    by (simp add: eval_double eval_seconds)
  have sum: "round_cents (foldl js_add (Finite 0)
               (map (\<lambda>i. js_mul (charged_seconds (lit ''0s'')) (per_second_rate True)) [0::nat]))
             = js_literal (32 / 10)"
    by (simp add: eval_double eval_seconds)
  have differs: "js_literal (32 / 10) \<noteq> Finite 0" by (simp add: eval_double)
  have oks: "filter (\<lambda>i. \<not> call_failed live_service accepting_provider [plain_segment 1]
                          zero_duration_options i) [0..<length [plain_segment 1]] = [0]"
    using f0 by simp
  have bad: "filter (call_failed live_service accepting_provider [plain_segment 1]
                zero_duration_options) [0..<length [plain_segment 1]] = []"
    using f0 by simp
  note fields = fanout_result_fields[OF run]
  have counts: "successCount res = 1" "failureCount res = 0"
    using fields(1,2) unfolding oks bad by simp_all
  have total: "totalCost res = js_literal (32 / 10)"
    using fields(3) unfolding oks dur audio sum .
  have "spec_seconds (requested_duration zero_duration_options) = 0"
    unfolding dur by (rule zero)
  moreover have "js_mul (round_double (of_nat (spec_seconds (requested_duration zero_duration_options))))
            (per_second_rate (requested_audio zero_duration_options)) = Finite 0"
    unfolding dur audio zero by (rule claimed)
  ultimately show ?thesis
    using run counts total differs by (simp add: zero_duration_run_def)
qed

text \<open>
  Claim C2. A failed adapter call for segment \<open>i\<close> does not end the batch: the entry of
  the segment has \<open>success = false\<close> and carries the error message, the errors array has
  exactly one entry with the 1-based index \<open>i + 1\<close>, which carries the same message, the
  POST of every later segment whose prompt can be built is in the trace, and the POSTs
  of the trace are those of all segments, in order.
\<close>

theorem failure_does_not_abort:
  assumes run: "generateVideosForAllSegments svc provider segs opts = (Inr res, trace)"
    and i: "i < length segs"
    and failed: "adapter_outcome svc provider segs opts i = Inl e"
  shows "videos res ! i = Failed (failed_segment_number (segs ! i) i) (error_message e)
       \<and> \<not> entry_success (videos res ! i)
       \<and> (\<exists>es. errors res = Some es
             \<and> filter (\<lambda>x. segmentIndex x = i + 1) es
                 = [\<lparr>segmentIndex = i + 1, error = error_message e\<rparr>])
       \<and> (\<forall>j p. i < j \<and> j < length segs \<and> createVideoPrompt (segs ! j) opts = Inr p
             \<longrightarrow> Post (requestData_of p opts) \<in> set trace)
       \<and> filter is_post trace = concat (map (adapter_events svc provider segs opts) [0..<length segs])"
proof -
  let ?idx = "[0..<length segs]"
  let ?F = "call_failed svc provider segs opts"
  let ?mk = "\<lambda>j. \<lparr>segmentIndex = j + 1,
                   error = error_message (projl (adapter_outcome svc provider segs opts j))\<rparr>"
  have init: "initialized svc" using run by (rule generateAll_initialized)
  have Fi: "?F i" using failed by (simp add: call_failed_def)
  have vids: "videos res = map (result_entry svc provider segs opts) ?idx"
    and errs: "errors res = (if 0 < length (map ?mk (filter ?F ?idx)) then Some (map ?mk (filter ?F ?idx)) else None)"
    and tr: "trace = concat (map (\<lambda>j. adapter_events svc provider segs opts j
                               @ (if \<not> ?F j \<and> j < length segs - 1 then [Sleep 1000] else [])) ?idx)"
    using run unfolding generateAll_closed[OF init] Let_def by auto
  have v: "videos res ! i = Failed (failed_segment_number (segs ! i) i) (error_message e)"
    using i failed by (simp add: vids result_entry_def)
  have nonempty: "filter ?F ?idx \<noteq> []"
    using i Fi by (auto simp: filter_empty_conv)
  have "filter (\<lambda>x. segmentIndex x = i + 1) (map ?mk (filter ?F ?idx))
          = map ?mk (filter (\<lambda>j. j = i \<and> ?F j) ?idx)"
    by (simp add: filter_map o_def conj_commute)
  also have "\<dots> = [\<lparr>segmentIndex = i + 1, error = error_message e\<rparr>]"
    using filter_upt_single[OF i, of ?F] Fi failed by simp
  finally have e1: "\<exists>es. errors res = Some es
             \<and> filter (\<lambda>x. segmentIndex x = i + 1) es
                 = [\<lparr>segmentIndex = i + 1, error = error_message e\<rparr>]"
    using nonempty by (simp add: errs)
  have later: "Post (requestData_of p opts) \<in> set trace"
    if "i < j" "j < length segs" "createVideoPrompt (segs ! j) opts = Inr p" for j p
  proof -
    have "adapter_events svc provider segs opts j = [Post (requestData_of p opts)]"
      using init that(3) by (rule adapter_events_post)
    then have "Post (requestData_of p opts) \<in> set (adapter_events svc provider segs opts j)"
      by simp
    moreover have "j \<in> set ?idx" using that(2) by simp
    ultimately show ?thesis unfolding tr by (rule mem_concat_events)
  qed
  have posts: "filter is_post (adapter_events svc provider segs opts j) = adapter_events svc provider segs opts j" for j
    by (simp add: adapter_events_def generateVideoFromSegment_def Let_def
          split: http_result.splits sum.splits if_splits)
  have order: "filter is_post trace = concat (map (adapter_events svc provider segs opts) ?idx)"
    unfolding tr by (simp add: filter_concat o_def posts cong: if_cong)
  have later': "\<forall>j p. i < j \<and> j < length segs \<and> createVideoPrompt (segs ! j) opts = Inr p
             \<longrightarrow> Post (requestData_of p opts) \<in> set trace"
    using later by blast
  have nv: "\<not> entry_success (videos res ! i)" by (simp add: v)
  show ?thesis using v nv e1 later' order by (intro conjI)
qed

text \<open>In the scenario the second entry is the failure and the third segment is still posted.\<close>

theorem failure_does_not_abort_witness:
  "(let run = generateVideosForAllSegments live_service second_call_429 three_segments empty_options;
        res = projr (fst run)
    in \<not> isl (fst run)
       \<and> videos res ! 1 = Failed 2 (lit ''Rate limit exceeded. Please wait and try again'')
       \<and> errors res \<noteq> None
       \<and> filter (\<lambda>x. segmentIndex x = 2) (the (errors res))
            = [\<lparr>segmentIndex = 2, error = lit ''Rate limit exceeded. Please wait and try again''\<rparr>]
       \<and> Post (requestData_of (clean_prompt (standard_template (plain_segment 3))) empty_options)
            \<in> set (snd run))"
proof -
  let ?run = "generateVideosForAllSegments live_service second_call_429 three_segments empty_options"
  obtain res trace where run: "?run = (Inr res, trace)"
    using run_Inr[OF live_service_initialized] by blast
  have i: "(1::nat) < length three_segments" by (simp add: three_segments_def)
  have third: "(1::nat) < 2 \<and> 2 < length three_segments
                 \<and> createVideoPrompt (three_segments ! 2) empty_options
                     = Inr (clean_prompt (standard_template (plain_segment 3)))"
    by (simp add: three_segments_def plain_segment_prompt)
  have num: "failed_segment_number (three_segments ! Suc 0) (Suc 0) = Suc (Suc 0)"
    by (simp add: failed_segment_number_def three_segments_def plain_segment_def)
  from failure_does_not_abort[OF run i scenario_second_call] third
  have "videos res ! 1 = Failed 2 (lit ''Rate limit exceeded. Please wait and try again'')
       \<and> errors res \<noteq> None
       \<and> filter (\<lambda>x. segmentIndex x = 2) (the (errors res))
            = [\<lparr>segmentIndex = 2, error = lit ''Rate limit exceeded. Please wait and try again''\<rparr>]
       \<and> Post (requestData_of (clean_prompt (standard_template (plain_segment 3))) empty_options)
            \<in> set trace"
    by (auto simp: num eval_nat_numeral)
  then show ?thesis using run by (simp add: Let_def)
qed

text \<open>
  Claim C9. The \<open>videos\<close> array has one entry per input segment, entry \<open>i\<close> being the
  one built from the call for segment \<open>i\<close>; \<open>totalSegments\<close> is the input length; and
  \<open>success\<close> holds exactly when some call succeeded.
\<close>

theorem videos_one_per_segment:
  assumes run: "generateVideosForAllSegments svc provider segs opts = (Inr res, trace)"
  shows "length (videos res) = length segs
       \<and> (\<forall>i<length segs. videos res ! i = result_entry svc provider segs opts i)
       \<and> totalSegments res = length segs
       \<and> (success res \<longleftrightarrow> (\<exists>i<length segs. \<not> call_failed svc provider segs opts i))"
proof -
  let ?idx = "[0..<length segs]"
  have init: "initialized svc" using run by (rule generateAll_initialized)
  have vids: "videos res = map (result_entry svc provider segs opts) ?idx"
    and tot: "totalSegments res = length segs"
    and suc: "success res = (0 < length (filter entry_success (map (result_entry svc provider segs opts) ?idx)))"
    using run unfolding generateAll_closed[OF init] Let_def by auto
  have "success res \<longleftrightarrow> (\<exists>i<length segs. \<not> call_failed svc provider segs opts i)"
    unfolding suc by (auto simp: filter_map o_def entry_success_result filter_empty_conv)
  then show ?thesis using vids tot by simp
qed

text \<open>The scenario has three entries and is a success, with the failure in second place.\<close>

theorem videos_one_per_segment_witness:
  "(let run = generateVideosForAllSegments live_service second_call_429 three_segments empty_options;
        res = projr (fst run)
    in \<not> isl (fst run) \<and> length (videos res) = 3 \<and> totalSegments res = 3 \<and> success res
       \<and> videos res ! 1 = Failed 2 (lit ''Rate limit exceeded. Please wait and try again''))"
proof -
  let ?run = "generateVideosForAllSegments live_service second_call_429 three_segments empty_options"
  obtain res trace where run: "?run = (Inr res, trace)"
    using run_Inr[OF live_service_initialized] by blast
  have len: "length three_segments = 3" by (simp add: three_segments_def)
  have f0: "\<not> call_failed live_service second_call_429 three_segments empty_options 0"
    by (simp add: call_failed_def adapter_outcome_def generateVideoFromSegment_def
          live_service_initialized three_segments_def plain_segment_prompt Let_def
          second_call_429_def ok_response_def)
  have e1: "result_entry live_service second_call_429 three_segments empty_options 1
              = Failed 2 (lit ''Rate limit exceeded. Please wait and try again'')"
    unfolding result_entry_def scenario_second_call
    by (simp add: failed_segment_number_def three_segments_def plain_segment_def)
  from videos_one_per_segment[OF run] f0 e1
  have "length (videos res) = 3 \<and> totalSegments res = 3 \<and> success res
        \<and> videos res ! 1 = Failed 2 (lit ''Rate limit exceeded. Please wait and try again'')"
    by (auto simp: len)
  then show ?thesis using run by (simp add: Let_def)
qed

text \<open>
  Claim C8. The calls are made one after the other in segment order, but the pause is
  not between every two consecutive calls: when the first of two calls is rejected, the
  second POST follows it directly, whereas after a successful call the pause of 1000 ms
  comes first.
\<close>

theorem no_pause_after_failed_call:
  "snd (generateVideosForAllSegments live_service first_call_429 two_segments empty_options)
     = [Post (requestData_of (clean_prompt (standard_template (plain_segment 1))) empty_options),
        Post (requestData_of (clean_prompt (standard_template (plain_segment 2))) empty_options)]
   \<and> snd (generateVideosForAllSegments live_service (\<lambda>i r. ok_response) two_segments empty_options)
     = [Post (requestData_of (clean_prompt (standard_template (plain_segment 1))) empty_options),
        Sleep 1000,
        Post (requestData_of (clean_prompt (standard_template (plain_segment 2))) empty_options)]"
proof -
  have idx: "[0..<length two_segments] = [0, 1]"
    by (simp add: two_segments_def upt_rec)
  have req: "requestData_of p (empty_options\<lparr>opt_segmentIndex := k\<rparr>) = requestData_of p empty_options" for p k
    by (simp add: requestData_of_def empty_options_def)
  show ?thesis
    unfolding generateAll_closed[OF live_service_initialized] Let_def idx
    by (simp add: call_failed_def adapter_outcome_def adapter_events_def
          generateVideoFromSegment_def live_service_initialized two_segments_def
          plain_segment_prompt Let_def first_call_429_def ok_response_def rejected_with_def req)
qed


section \<open>The cost of a call\<close>

text \<open>
  Claim C3, as the code has it. \<open>calculateCost\<close> depends on the duration string and
  the audio flag alone and returns the product, in doubles, of the seconds and 0.40 with
  audio, 0.20 without, where the seconds are the integer the digits of the duration
  string denote, or 8 when the string has no digit or its digits denote zero.
\<close>

theorem calculateCost_amended:
  "calculateCost d (Some audio)
     = js_mul (if spec_seconds d = 0 then Finite 8 else round_double (of_nat (spec_seconds d)))
         (if audio then js_literal (40 / 100) else js_literal (20 / 100))"
  by (simp add: calculateCost_charged charged_seconds_def per_second_rate_def)

text \<open>
  Eight and six seconds with audio, five without, and a duration without any digit. The
  product for six seconds is the double above 2.4, which prints as 2.4000000000000004.
\<close>

theorem calculateCost_amended_witness:
  "calculateCost (lit ''8s'') (Some True) = js_literal (32 / 10)
   \<and> calculateCost (lit ''6s'') (Some True) = Finite (5404319552844596 / 2 ^ 51)
   \<and> calculateCost (lit ''5s'') (Some False) = Finite 1
   \<and> calculateCost (lit ''fast'') (Some False) = js_literal (16 / 10)"
proof -
  have e8: "js_mul (if spec_seconds (lit ''8s'') = 0 then Finite 8
                    else round_double (of_nat (spec_seconds (lit ''8s''))))
              (if True then js_literal (40 / 100) else js_literal (20 / 100))
            = js_literal (32 / 10)"
    by (simp add: eval_double eval_seconds)
  have e6: "js_mul (if spec_seconds (lit ''6s'') = 0 then Finite 8
                    else round_double (of_nat (spec_seconds (lit ''6s''))))
              (if True then js_literal (40 / 100) else js_literal (20 / 100))
            = Finite (5404319552844596 / 2 ^ 51)"
    by (simp add: eval_double eval_seconds)
  have e5: "js_mul (if spec_seconds (lit ''5s'') = 0 then Finite 8
                    else round_double (of_nat (spec_seconds (lit ''5s''))))
              (if False then js_literal (40 / 100) else js_literal (20 / 100))
            = Finite 1"
    by (simp add: eval_double eval_seconds)
  have ef: "js_mul (if spec_seconds (lit ''fast'') = 0 then Finite 8
                    else round_double (of_nat (spec_seconds (lit ''fast''))))
              (if False then js_literal (40 / 100) else js_literal (20 / 100))
            = js_literal (16 / 10)"
    by (simp add: eval_double eval_seconds)
  show ?thesis
    using calculateCost_amended[of "lit ''8s''" True] calculateCost_amended[of "lit ''6s''" True]
      calculateCost_amended[of "lit ''5s''" False] calculateCost_amended[of "lit ''fast''" False]
    by (simp only: e8 e6 e5 ef simp_thms)
qed

text \<open>
  Claim C3, as stated, fails for the duration \<open>0s\<close>: the digits denote 0, whose product
  with the rate is 0, and the cost is that of 8 seconds, 3.2.
\<close>

theorem calculateCost_zero_seconds_counterexample:
  "spec_seconds (lit ''0s'') = 0
   \<and> js_mul (round_double (of_nat (spec_seconds (lit ''0s'')))) (js_literal (40 / 100)) = Finite 0
   \<and> calculateCost (lit ''0s'') (Some True) = js_literal (32 / 10)
   \<and> calculateCost (lit ''0s'') (Some True)
        \<noteq> js_mul (round_double (of_nat (spec_seconds (lit ''0s'')))) (js_literal (40 / 100))"
  by (simp add: eval_double eval_seconds calculateCost_def duration_seconds_def parseInt_def
        strip_non_digits_def baseRate_def)

text \<open>
  Further values, as Node prints them: 1.2000000000000002 for three seconds with audio,
  2.8000000000000003 and 1.4000000000000001 for seven seconds with and without;
  \<open>parseInt\<close> of \<open>9007199254740993\<close> is 9007199254740992; and three calls of
  \<open>99999999999999s\<close> with audio total 119999999999998.81.
\<close>

lemma calculateCost_examples:
  "calculateCost (lit ''3s'') (Some True) = Finite (1351079888211149 / 2 ^ 50)"
  "calculateCost (lit ''7s'') (Some True) = Finite (6305039478318695 / 2 ^ 51)"
  "calculateCost (lit ''7s'') (Some False) = Finite (6305039478318695 / 2 ^ 52)"
  "parseInt (lit ''9007199254740993'') = Finite 9007199254740992"
  by (simp_all add: eval_double eval_seconds calculateCost_def duration_seconds_def parseInt_def
        strip_non_digits_def baseRate_def)

lemma large_total_example:
  "round_cents (foldl js_add (Finite 0)
     (map (\<lambda>i. js_mul (charged_seconds (lit ''99999999999999s'')) (per_second_rate True))
        [0::nat, 1, 2]))
   = js_literal (11999999999999881 / 100)"
  by (simp add: eval_double eval_seconds)

section \<open>The health check\<close>

text \<open>
  Claim C4. For every environment the four flags of \<open>apis\<close> in the answer of
  \<open>GET /api/health\<close> tell whether \<open>OPENAI_API_KEY\<close>, \<open>GOOGLE_GEMINI_API_KEY\<close>,
  \<open>GOOGLE_APPLICATION_CREDENTIALS\<close> and \<open>KIEAI_API_KEY\<close> are configured; with no
  video-provider credential the three video flags are false and \<open>openai\<close> tells
  whether the mandatory credential is set.
\<close>

theorem health_reports_credentials:
  "apis (get_health e index_exists)
     = \<lparr>openai = credential_present e ''OPENAI_API_KEY'',
        gemini = credential_present e ''GOOGLE_GEMINI_API_KEY'',
        vertex = credential_present e ''GOOGLE_APPLICATION_CREDENTIALS'',
        kieai = credential_present e ''KIEAI_API_KEY''\<rparr>
   \<and> (\<not> credential_present e ''GOOGLE_GEMINI_API_KEY''
        \<and> \<not> credential_present e ''GOOGLE_APPLICATION_CREDENTIALS''
        \<and> \<not> credential_present e ''KIEAI_API_KEY''
      \<longrightarrow> \<not> gemini (apis (get_health e index_exists))
          \<and> \<not> vertex (apis (get_health e index_exists))
          \<and> \<not> kieai (apis (get_health e index_exists))
          \<and> openai (apis (get_health e index_exists)) = credential_present e ''OPENAI_API_KEY'')"
  by (auto simp: get_health_def credential_present_def truthy_def split: option.splits)

text \<open>With only the mandatory credential configured.\<close>

theorem health_reports_credentials_witness:
  "apis (get_health openai_only_env True)
     = \<lparr>openai = True, gemini = False, vertex = False, kieai = False\<rparr>
   \<and> \<not> credential_present openai_only_env ''GOOGLE_GEMINI_API_KEY''
   \<and> \<not> credential_present openai_only_env ''GOOGLE_APPLICATION_CREDENTIALS''
   \<and> \<not> credential_present openai_only_env ''KIEAI_API_KEY''"
  using health_reports_credentials[of openai_only_env True]
  by (simp add: credential_present_def openai_only_env_def lit_def)

text \<open>
  The server only runs when \<open>validateEnvironment\<close> found no critical error, and then the
  \<open>openai\<close> flag is true.
\<close>

lemma running_server_reports_openai:
  "validateEnvironment_errors e = [] \<Longrightarrow> openai (apis (get_health e index_exists))"
  by (simp add: validateEnvironment_errors_def get_health_def split: if_splits)

section \<open>The error middleware\<close>

text \<open>
  Claim C6. The response of the error middleware carries the identifier drawn for this
  error, which is the random draw from its eighth character on; in development
  (\<open>NODE_ENV\<close> is \<open>development\<close>) the message is the error's own and the stack is
  included; otherwise the message is the fixed text and there is no stack.
\<close>

theorem error_middleware_response:
  "errorId (error_middleware e rnd err req) = drop 7 rnd
   \<and> (e ''NODE_ENV'' = Some (lit ''development'')
        \<longrightarrow> resp_message (error_middleware e rnd err req) = err_message err
            \<and> detail (error_middleware e rnd err req) = Detail (err_stack err) req)
   \<and> (e ''NODE_ENV'' \<noteq> Some (lit ''development'')
        \<longrightarrow> resp_message (error_middleware e rnd err req) = Some (lit ''Something went wrong'')
            \<and> detail (error_middleware e rnd err req) = NoDetail)"
  by (simp add: error_middleware_def Let_def)

text \<open>The same error in development and in production.\<close>

theorem error_middleware_response_witness:
  "errorId (error_middleware development_env (lit ''0.4fzyo82mvyr'') sample_error sample_request)
     = lit ''82mvyr''
   \<and> resp_message (error_middleware development_env (lit ''0.4fzyo82mvyr'') sample_error sample_request)
     = Some (lit ''boom'')
   \<and> detail (error_middleware development_env (lit ''0.4fzyo82mvyr'') sample_error sample_request)
     = Detail (Some (lit ''Error: boom at handler'')) sample_request
   \<and> resp_message (error_middleware production_env (lit ''0.4fzyo82mvyr'') sample_error sample_request)
     = Some (lit ''Something went wrong'')
   \<and> detail (error_middleware production_env (lit ''0.4fzyo82mvyr'') sample_error sample_request)
     = NoDetail"
  using error_middleware_response[of development_env "lit ''0.4fzyo82mvyr''" sample_error sample_request]
    error_middleware_response[of production_env "lit ''0.4fzyo82mvyr''" sample_error sample_request]
  by (simp add: development_env_def production_env_def sample_error_def lit_def)

section \<open>The text-generation pipeline\<close>

text \<open>
  Claim C7. A Script of fewer than 50 characters is rejected with a \<open>ValidationError\<close>,
  the HTTP 400 equivalent, and no call to a provider is issued.
\<close>

theorem short_script_rejected:
  "length script < 50 \<Longrightarrow>
     generation_pipeline split text_provider script = (Inl ValidationError, [])
     \<and> http_equivalent ValidationError = Some 400"
  by (simp add: generation_pipeline_def)

text \<open>A script of twelve characters.\<close>

theorem short_script_rejected_witness:
  "length (lit ''Buy this now'') < 50
   \<and> generation_pipeline (\<lambda>s. [s]) (\<lambda>k. Some (lit ''{}'')) (lit ''Buy this now'') = (Inl ValidationError, [])
   \<and> http_equivalent ValidationError = Some 400"
proof -
  have short: "length (lit ''Buy this now'') < 50" by (simp add: lit_def)
  from short_script_rejected[OF short] short show ?thesis by simp
qed

text \<open>A Script that passes the validation and splits into segments does reach the provider.\<close>

lemma long_script_calls_provider:
  "50 \<le> length script \<Longrightarrow> split script \<noteq> [] \<Longrightarrow>
     snd (generation_pipeline split text_provider script) \<noteq> []"
  by (simp add: generation_pipeline_def split: option.splits prod.splits)

section \<open>The prompt\<close>

text \<open>
  Replacing the runs leaves no white space but single spaces, each followed by a code
  unit that is not white space, and a prefix of such a string is such a string.
\<close>

lemma replace_ws_runs_head:
  "xs \<noteq> [] \<Longrightarrow> \<not> is_ws (hd xs) \<Longrightarrow>
     replace_ws_runs xs \<noteq> [] \<and> \<not> is_ws (hd (replace_ws_runs xs))"
  by (cases xs) simp_all

lemma dropWhile_head: "dropWhile P xs \<noteq> [] \<Longrightarrow> \<not> P (hd (dropWhile P xs))"
  using hd_dropWhile by blast

lemma ws_collapsed_Cons:
  "ws_collapsed (c # cs) \<longleftrightarrow>
     (is_ws c \<longrightarrow> c = 32 \<and> (cs \<noteq> [] \<longrightarrow> \<not> is_ws (hd cs))) \<and> ws_collapsed cs"
  by (cases cs) auto

lemma ws_collapsed_replace: "ws_collapsed (replace_ws_runs s)"
proof (induction s rule: replace_ws_runs.induct)
  case 1
  show ?case by simp
next
  case (2 c cs)
  show ?case
  proof (cases "is_ws c")
    case True
    have "replace_ws_runs (dropWhile is_ws cs) \<noteq> [] \<longrightarrow>
            \<not> is_ws (hd (replace_ws_runs (dropWhile is_ws cs)))"
    proof
      assume ne: "replace_ws_runs (dropWhile is_ws cs) \<noteq> []"
      have "dropWhile is_ws cs \<noteq> []"
      proof
        assume "dropWhile is_ws cs = []"
        then have "replace_ws_runs (dropWhile is_ws cs) = []" by (simp only: replace_ws_runs.simps)
        with ne show False by simp
      qed
      then show "\<not> is_ws (hd (replace_ws_runs (dropWhile is_ws cs)))"
        using replace_ws_runs_head dropWhile_head by blast
    qed
    then show ?thesis using True "2.IH"(1) by (simp add: ws_collapsed_Cons)
  next
    case False
    then show ?thesis using "2.IH"(2) by (simp add: ws_collapsed_Cons)
  qed
qed

lemma ws_collapsed_take: "ws_collapsed xs \<Longrightarrow> ws_collapsed (take n xs)"
proof (induction xs arbitrary: n)
  case Nil
  show ?case by simp
next
  case (Cons c cs)
  show ?case
  proof (cases n)
    case 0
    then show ?thesis by simp
  next
    case (Suc m)
    have hd_take: "take m cs \<noteq> [] \<Longrightarrow> hd (take m cs) = hd cs"
      by (cases cs; cases m) simp_all
    have "take m cs \<noteq> [] \<Longrightarrow> cs \<noteq> []" by auto
    then show ?thesis
      using Cons.prems Cons.IH[of m] Suc hd_take by (auto simp: ws_collapsed_Cons)
  qed
qed

lemma clean_prompt_ok: "length (clean_prompt p) \<le> 1000 \<and> ws_collapsed (clean_prompt p)"
  by (simp add: clean_prompt_def substring0_def ws_collapsed_take ws_collapsed_replace)

text \<open>
  Claim C10. Whenever \<open>createVideoPrompt\<close> returns a value, it is a string of at most
  1000 code units in which every run of white space is a single space.
\<close>

theorem createVideoPrompt_clean:
  "createVideoPrompt seg opts = Inr p \<Longrightarrow> length p \<le> 1000 \<and> ws_collapsed p"
  using clean_prompt_ok
  by (auto simp: createVideoPrompt_def split: if_splits sum.splits)

text \<open>
  In the standard branch every missing field has its default text, and the function
  always returns.
\<close>

lemma bare_prompt:
  "createVideoPrompt bare_segment empty_options
     = Inr (lit ''UGC style video: Natural presenter. Dialogue: '' @ [34, 34]
            @ lit '' Actions: Natural gestures while speaking Camera: Medium shot, eye level Style: Authentic user-generated content, handheld camera, natural lighting, casual and relatable'')"
  by (simp add: createVideoPrompt_def isEnhanced_def bare_segment_def standard_template_def
        clean_prompt_def substring0_def trim_def or_text_def sync_or_text_def lit_def is_ws_def)

theorem createVideoPrompt_clean_witness:
  "createVideoPrompt bare_segment empty_options
     = Inr (lit ''UGC style video: Natural presenter. Dialogue: '' @ [34, 34]
            @ lit '' Actions: Natural gestures while speaking Camera: Medium shot, eye level Style: Authentic user-generated content, handheld camera, natural lighting, casual and relatable'')
   \<and> length (lit ''UGC style video: Natural presenter. Dialogue: '' @ [34, 34]
            @ lit '' Actions: Natural gestures while speaking Camera: Medium shot, eye level Style: Authentic user-generated content, handheld camera, natural lighting, casual and relatable'') \<le> 1000
   \<and> ws_collapsed (lit ''UGC style video: Natural presenter. Dialogue: '' @ [34, 34]
            @ lit '' Actions: Natural gestures while speaking Camera: Medium shot, eye level Style: Authentic user-generated content, handheld camera, natural lighting, casual and relatable'')"
  using createVideoPrompt_clean[OF bare_prompt] bare_prompt by simp

lemma standard_prompt_returns:
  "\<not> isEnhanced seg \<Longrightarrow> \<exists>p. createVideoPrompt seg opts = Inr p"
  by (simp add: createVideoPrompt_def)


section \<open>The errors of the adapter\<close>

text \<open>
  With an initialized service and a well-formed body the route always answers 200: the
  fan-out catches the error of every segment, so none reaches the route's \<open>catch\<close>.
\<close>

lemma route_answers_200:
  assumes "initialized svc" and "segments req = Some segs" and "segs \<noteq> []"
    and "filter invalid_segment segs = []"
  shows "http_status (fst (post_generate_videos_falai svc provider req)) = 200"
proof -
  obtain res trace where
    "generateVideosForAllSegments svc provider segs
       (route_options (case body_options req of None \<Rightarrow> empty_options | Some opts \<Rightarrow> opts))
     = (Inr res, trace)"
    using run_Inr[OF assms(1)] by blast
  then show ?thesis using assms(2-4) by (simp add: post_generate_videos_falai_def)
qed

lemma plain_segment_valid: "filter invalid_segment [plain_segment n] = []"
  by (simp add: invalid_segment_def plain_segment_def)

text \<open>
  Claim C5, as the code has it. \<open>generateVideoFromSegment\<close> turns every rejected POST
  into exactly one \<open>Error\<close>, whose message is fixed by the failure: status 401 gives the
  invalid-key message, 402 the insufficient-credits message, 429 the rate-limit message,
  400 the invalid-request message, a timeout and a missing response their own messages,
  and any other status a generic provider message. The route does not map these errors
  to status codes: they are recorded per segment and the answer is 200.
\<close>

theorem adapter_error_translation:
  assumes init: "initialized svc"
    and prompt: "createVideoPrompt seg opts = Inr p"
    and rejected: "post (requestData_of p opts) = Rejected err"
  shows "generateVideoFromSegment svc post seg opts
           = (Inl (translate_error err), [Post (requestData_of p opts)])
       \<and> (\<forall>d. response err = Some (401, d) \<longrightarrow>
             translate_error err = Error (lit ''Invalid API key. Please check your FALAI_API_KEY''))
       \<and> (\<forall>d. response err = Some (402, d) \<longrightarrow>
             translate_error err
               = Error (lit ''Insufficient credits. Please add funds to your FalAI account''))
       \<and> (\<forall>d. response err = Some (429, d) \<longrightarrow>
             translate_error err = Error (lit ''Rate limit exceeded. Please wait and try again''))
       \<and> (\<forall>d. response err = Some (400, d) \<longrightarrow>
             translate_error err
               = Error (lit ''Invalid request: '' @ or_text d (lit ''Bad request parameters'')))
       \<and> (response err = None \<and> code err = Some (lit ''ECONNABORTED'') \<longrightarrow>
             translate_error err
               = Error (lit ''Request timeout. Video generation is taking longer than expected''))
       \<and> (response err = None \<and> code err \<noteq> Some (lit ''ECONNABORTED'') \<and> request err \<longrightarrow>
             translate_error err
               = Error (lit ''Network error. Please check your internet connection''))
       \<and> (\<forall>st d. response err = Some (st, d) \<and> st \<noteq> 400 \<and> st \<noteq> 401 \<and> st \<noteq> 402 \<and> st \<noteq> 429 \<longrightarrow>
             translate_error err
               = Error (if st = 500 then lit ''FalAI service error. Please try again later''
                        else lit ''FalAI API error ('' @ show_nat st @ lit ''): ''
                             @ or_text d (lit ''Unknown error'')))
       \<and> (\<forall>provider req segs.
             segments req = Some segs \<and> segs \<noteq> [] \<and> filter invalid_segment segs = [] \<longrightarrow>
             http_status (fst (post_generate_videos_falai svc provider req)) = 200)"
proof -
  have call: "generateVideoFromSegment svc post seg opts
           = (Inl (translate_error err), [Post (requestData_of p opts)])"
    using init prompt rejected by (simp add: generateVideoFromSegment_def Let_def)
  have table: "(\<forall>d. response err = Some (401, d) \<longrightarrow>
             translate_error err = Error (lit ''Invalid API key. Please check your FALAI_API_KEY''))
       \<and> (\<forall>d. response err = Some (402, d) \<longrightarrow>
             translate_error err
               = Error (lit ''Insufficient credits. Please add funds to your FalAI account''))
       \<and> (\<forall>d. response err = Some (429, d) \<longrightarrow>
             translate_error err = Error (lit ''Rate limit exceeded. Please wait and try again''))
       \<and> (\<forall>d. response err = Some (400, d) \<longrightarrow>
             translate_error err
               = Error (lit ''Invalid request: '' @ or_text d (lit ''Bad request parameters'')))
       \<and> (response err = None \<and> code err = Some (lit ''ECONNABORTED'') \<longrightarrow>
             translate_error err
               = Error (lit ''Request timeout. Video generation is taking longer than expected''))
       \<and> (response err = None \<and> code err \<noteq> Some (lit ''ECONNABORTED'') \<and> request err \<longrightarrow>
             translate_error err
               = Error (lit ''Network error. Please check your internet connection''))
       \<and> (\<forall>st d. response err = Some (st, d) \<and> st \<noteq> 400 \<and> st \<noteq> 401 \<and> st \<noteq> 402 \<and> st \<noteq> 429 \<longrightarrow>
             translate_error err
               = Error (if st = 500 then lit ''FalAI service error. Please try again later''
                        else lit ''FalAI API error ('' @ show_nat st @ lit ''): ''
                             @ or_text d (lit ''Unknown error'')))"
    by (simp add: translate_error_def)
  have route: "\<forall>provider req segs.
             segments req = Some segs \<and> segs \<noteq> [] \<and> filter invalid_segment segs = [] \<longrightarrow>
             http_status (fst (post_generate_videos_falai svc provider req)) = 200"
    using route_answers_200[OF init] by blast
  show ?thesis using call table route by (intro conjI) simp_all
qed

text \<open>A single segment whose call is rejected with status 429.\<close>

theorem adapter_error_translation_witness:
  "generateVideoFromSegment live_service (\<lambda>r. rejected_with 429) (plain_segment 1) empty_options
     = (Inl (Error (lit ''Rate limit exceeded. Please wait and try again'')),
        [Post (requestData_of (clean_prompt (standard_template (plain_segment 1))) empty_options)])
   \<and> http_status (fst (post_generate_videos_falai live_service (\<lambda>i r. rejected_with 429)
        \<lparr>segments = Some [plain_segment 1], body_options = None\<rparr>)) = 200"
proof -
  have rej: "(\<lambda>r. rejected_with 429)
               (requestData_of (clean_prompt (standard_template (plain_segment 1))) empty_options)
             = Rejected (rejection 429)"
    by (simp add: rejected_with_def)
  have r429: "response (rejection 429) = Some (429, None)"
    by (simp add: rejection_def)
  note inst = adapter_error_translation[OF live_service_initialized plain_segment_prompt rej]
  from inst r429 have msg: "translate_error (rejection 429)
      = Error (lit ''Rate limit exceeded. Please wait and try again'')"
    by blast
  from inst have call: "generateVideoFromSegment live_service (\<lambda>r. rejected_with 429) (plain_segment 1) empty_options
     = (Inl (translate_error (rejection 429)),
        [Post (requestData_of (clean_prompt (standard_template (plain_segment 1))) empty_options)])"
    by blast
  from inst plain_segment_valid[of 1]
  have "http_status (fst (post_generate_videos_falai live_service (\<lambda>i r. rejected_with 429)
        \<lparr>segments = Some [plain_segment 1], body_options = None\<rparr>)) = 200"
    by simp
  with call msg show ?thesis by simp
qed

text \<open>
  Claim C5, as stated, fails in its last part: when the provider answers 401 the adapter
  throws the invalid-key error, and the route still answers 200, not 401.
\<close>

theorem route_does_not_map_status_counterexample:
  "fst (generateVideoFromSegment live_service (\<lambda>r. rejected_with 401) (plain_segment 1)
          (route_options empty_options))
     = Inl (Error (lit ''Invalid API key. Please check your FALAI_API_KEY''))
   \<and> http_status (fst (post_generate_videos_falai live_service (\<lambda>i r. rejected_with 401)
        \<lparr>segments = Some [plain_segment 1], body_options = None\<rparr>)) = 200
   \<and> http_status (fst (post_generate_videos_falai live_service (\<lambda>i r. rejected_with 401)
        \<lparr>segments = Some [plain_segment 1], body_options = None\<rparr>)) \<noteq> 401"
proof -
  have "http_status (fst (post_generate_videos_falai live_service (\<lambda>i r. rejected_with 401)
        \<lparr>segments = Some [plain_segment 1], body_options = None\<rparr>)) = 200"
    using route_answers_200[OF live_service_initialized, of _ "[plain_segment 1]"] plain_segment_valid[of 1]
    by simp
  moreover have "fst (generateVideoFromSegment live_service (\<lambda>r. rejected_with 401) (plain_segment 1)
          (route_options empty_options))
     = Inl (Error (lit ''Invalid API key. Please check your FALAI_API_KEY''))"
    by (simp add: generateVideoFromSegment_def live_service_initialized plain_segment_prompt
          Let_def rejected_with_def rejection_def translate_error_def)
  ultimately show ?thesis by simp
qed

text \<open>
  The status mapping in the route's \<open>catch\<close> block, applied to two messages of the
  adapter.
\<close>

lemma statusCode_for_rate_limit_message:
  "statusCode_for (lit ''Rate limit exceeded. Please wait and try again'') = 500"
  by (simp add: statusCode_for_def lit_def)

lemma statusCode_for_auth_message:
  "statusCode_for (lit ''Invalid API key. Please check your FALAI_API_KEY'') = 401"
  by (simp add: statusCode_for_def lit_def)

end
